theory Spec2Isabelle
  imports Complex_Main "HOL-Library.Word"
begin

section \<open>JavaScript values\<close>

text \<open>
  A JavaScript string is a sequence of UTF-16 code units and \<open>.length\<close> counts them, so a
  string is a list of 16-bit words and \<open>length\<close> is \<open>.length\<close>. \<open>js\<close> writes an ASCII
  literal of the source as such a list.
\<close>

type_synonym js_string = "16 word list"

definition js :: "string \<Rightarrow> js_string" where
  "js s = map (\<lambda>c. of_nat (of_char c)) s"

definition newline :: js_string where
  "newline = [0x0A]"

text \<open>\<open>Array.prototype.join\<close> on an array of strings.\<close>

fun join :: "js_string list \<Rightarrow> js_string \<Rightarrow> js_string" where
  "join [] sep = []"
| "join [x] sep = x"
| "join (x # y # ys) sep = x @ sep @ join (y # ys) sep"

text \<open>
  \<open>String.prototype.trim\<close> removes the code units of WhiteSpace and LineTerminator from both
  ends: TAB, LF, VT, FF, CR, SPACE, NBSP, U+1680, U+2000 to U+200A, U+2028, U+2029, U+202F,
  U+205F, U+3000 and U+FEFF.
\<close>

definition isWhiteSpace :: "16 word \<Rightarrow> bool" where
  "isWhiteSpace c = (c \<in> set [0x09, 0x0A, 0x0B, 0x0C, 0x0D, 0x20, 0xA0, 0x1680,
     0x2000, 0x2001, 0x2002, 0x2003, 0x2004, 0x2005, 0x2006, 0x2007, 0x2008, 0x2009, 0x200A,
     0x2028, 0x2029, 0x202F, 0x205F, 0x3000, 0xFEFF])"

definition trim :: "js_string \<Rightarrow> js_string" where
  "trim s = rev (dropWhile isWhiteSpace (rev (dropWhile isWhiteSpace s)))"

text \<open>
  A value as it arrives at run time, where the TypeScript types are not checked: tool
  arguments and the entries handed to \<open>addEntry\<close>. An object is its list of properties; a
  property that is not listed reads as \<open>undefined\<close>.
\<close>

datatype js_value =
    JsUndefined
  | JsNull
  | JsBoolean bool
  | JsNumber int
  | JsString js_string
  | JsObject "(string \<times> js_value) list"

fun typeof :: "js_value \<Rightarrow> string" where
  "typeof JsUndefined = ''undefined''"
| "typeof JsNull = ''object''"
| "typeof (JsBoolean b) = ''boolean''"
| "typeof (JsNumber n) = ''number''"
| "typeof (JsString s) = ''string''"
| "typeof (JsObject ps) = ''object''"

fun falsy :: "js_value \<Rightarrow> bool" where
  "falsy JsUndefined = True"
| "falsy JsNull = True"
| "falsy (JsBoolean b) = (\<not> b)"
| "falsy (JsNumber n) = (n = 0)"
| "falsy (JsString s) = (s = [])"
| "falsy (JsObject ps) = False"

fun get_prop :: "js_value \<Rightarrow> string \<Rightarrow> js_value" where
  "get_prop (JsObject ps) k = (case map_of ps k of None \<Rightarrow> JsUndefined | Some v \<Rightarrow> v)"
| "get_prop v k = JsUndefined"

fun has_prop :: "js_value \<Rightarrow> string \<Rightarrow> bool" where
  "has_prop (JsObject ps) k = (map_of ps k \<noteq> None)"
| "has_prop v k = False"

text \<open>
  A JavaScript number as far as the timeout check reads it: a finite value (every finite
  double is a rational) or one of the three non-finite ones.
\<close>

datatype js_number = Finite rat | PosInfinity | NegInfinity | NaN

text \<open>
  What a \<open>throw\<close> carries. \<open>JsError\<close> is a plain \<open>Error\<close> (or a \<open>TypeError\<close> of the
  engine), the next three are the subclasses of \<open>Error\<close> the repository and its SDK define.
  The last three are thrown values that are not instances of \<open>Error\<close>: \<open>NonError m\<close> is
  any value other than \<open>null\<close> and \<open>undefined\<close>, with \<open>m\<close> what its property \<open>message\<close>
  reads as (\<open>None\<close> for \<open>undefined\<close>, as for a thrown string or number; a message that
  is not a string is outside the type of the field it would be stored in and is left
  out); \<open>ThrownNull\<close> and \<open>ThrownUndefined\<close> are the two values on which reading a
  property throws.
\<close>

datatype ErrorCode = InvalidParams | InvalidRequest | MethodNotFound

datatype exn =
    JsError js_string
  | TaskError js_string
  | ConversationError js_string
  | McpError ErrorCode js_string
  | NonError "js_string option"
  | ThrownNull
  | ThrownUndefined

fun instanceofError :: "exn \<Rightarrow> bool" where
  "instanceofError (NonError m) = False"
| "instanceofError ThrownNull = False"
| "instanceofError ThrownUndefined = False"
| "instanceofError e = True"

text \<open>
  The property \<open>message\<close> of a thrown value that has properties; for \<open>null\<close> and
  \<open>undefined\<close> see \<open>readMessage\<close>.
\<close>

fun message :: "exn \<Rightarrow> js_string option" where
  "message (JsError m) = Some m"
| "message (TaskError m) = Some m"
| "message (ConversationError m) = Some m"
| "message (McpError c m) = Some m"
| "message (NonError m) = m"
| "message ThrownNull = None"
| "message ThrownUndefined = None"

text \<open>
  Reading a property of \<open>undefined\<close> or of \<open>null\<close> throws a \<open>TypeError\<close>; the text is
  the one of V8.
\<close>

definition typeErrorReading :: "string \<Rightarrow> exn" where
  "typeErrorReading p =
     JsError (js ''Cannot read properties of undefined (reading '' @ [0x27] @ js p @ [0x27] @
              js '')'')"

definition typeErrorReadingNull :: "string \<Rightarrow> exn" where
  "typeErrorReadingNull p =
     JsError (js ''Cannot read properties of null (reading '' @ [0x27] @ js p @ [0x27] @
              js '')'')"

text \<open>The expression \<open>error.message\<close> on a caught value of any kind.\<close>

fun readMessage :: "exn \<Rightarrow> exn + js_string option" where
  "readMessage ThrownNull = Inl (typeErrorReadingNull ''message'')"
| "readMessage ThrownUndefined = Inl (typeErrorReading ''message'')"
| "readMessage e = Inr (message e)"

section \<open>The data model (types.ts and the interfaces of index.ts)\<close>

datatype TaskStatus = Pending | Reasoning | Responding | Complete | Error

text \<open>\<open>TaskInfo\<close> of types.ts; index.ts declares the same record as \<open>interface TaskStatus\<close>.\<close>

record TaskInfo =
  status :: TaskStatus
  prompt :: js_string
  showReasoning :: "bool option"
  reasoning :: "js_string option"
  response :: "js_string option"
  error :: "js_string option"
  timestamp :: int

record ConversationEntry =
  entry_timestamp :: int
  entry_prompt :: js_string
  entry_reasoning :: js_string
  entry_response :: js_string
  entry_model :: js_string

text \<open>
  The buffer. \<open>ConversationManager\<close> stores whatever value passed \<open>validateEntry\<close>, the
  servers store typed entries, hence the parameter.
\<close>

record 'e ConversationContext =
  entries :: "'e list"
  maxEntries :: int

record ClaudeContentPart =
  part_type :: js_string
  part_text :: js_string

datatype message_content = Text js_string | Parts "ClaudeContentPart list"

text \<open>
  The role is kept as the string it is at run time: \<open>isValidClaudeMessage\<close> checks it and
  the formatters compare it with \<open>'user'\<close>.
\<close>

record ClaudeMessage =
  role :: js_string
  content :: message_content

section \<open>ConversationManager (conversation manager module)\<close>

definition DEFAULT_MAX_ENTRIES :: int where
  "DEFAULT_MAX_ENTRIES = 10"

definition DEEPSEEK_MAX_LENGTH :: nat where
  "DEEPSEEK_MAX_LENGTH = 50000"

definition CLAUDE_MAX_LENGTH :: nat where
  "CLAUDE_MAX_LENGTH = 600000"

text \<open>\<open>maxEntries\<close> is an \<open>int\<close> here, so \<open>Number.isInteger\<close> holds and the sign is checked.\<close>

definition validateMaxEntries :: "int \<Rightarrow> exn + unit" where
  "validateMaxEntries n =
     (if n \<le> 0 then Inl (ConversationError (js ''Max entries must be a positive integer''))
      else Inr ())"

definition ConversationManager :: "int option \<Rightarrow> exn + js_value ConversationContext" where
  "ConversationManager arg =
     (let n = (case arg of None \<Rightarrow> DEFAULT_MAX_ENTRIES | Some k \<Rightarrow> k) in
      case validateMaxEntries n of
        Inl e \<Rightarrow> Inl e
      | Inr _ \<Rightarrow> Inr \<lparr>entries = [], maxEntries = n\<rparr>)"

definition requiredFields :: "string list" where
  "requiredFields = [''timestamp'', ''prompt'', ''reasoning'', ''response'', ''model'']"

fun checkFields :: "js_value \<Rightarrow> string list \<Rightarrow> exn + unit" where
  "checkFields entry [] = Inr ()"
| "checkFields entry (field # remaining) =
     (if \<not> has_prop entry field
      then Inl (ConversationError (js ''Missing required field: '' @ js field))
      else checkFields entry remaining)"

definition validateEntry :: "js_value \<Rightarrow> exn + unit" where
  "validateEntry entry =
     (if falsy entry \<or> typeof entry \<noteq> ''object''
      then Inl (ConversationError (js ''Invalid conversation entry''))
      else checkFields entry requiredFields)"

text \<open>\<open>push\<close>, then \<open>shift\<close> when the length has passed \<open>maxEntries\<close>.\<close>

definition addEntry ::
  "js_value ConversationContext \<Rightarrow> js_value \<Rightarrow> exn + js_value ConversationContext" where
  "addEntry ctx entry =
     (case validateEntry entry of
        Inl e \<Rightarrow> Inl e
      | Inr _ \<Rightarrow>
          (let pushed = entries ctx @ [entry] in
           Inr (ctx\<lparr>entries := (if int (length pushed) > maxEntries ctx then tl pushed
                                  else pushed)\<rparr>)))"

definition clearContext :: "'e ConversationContext \<Rightarrow> 'e ConversationContext" where
  "clearContext ctx = ctx\<lparr>entries := []\<rparr>"

definition getEntries :: "'e ConversationContext \<Rightarrow> 'e list" where
  "getEntries ctx = entries ctx"

text \<open>A run of \<open>addEntry\<close> calls; the first one that throws ends it.\<close>

fun addEntry_calls ::
  "js_value ConversationContext \<Rightarrow> js_value list \<Rightarrow> exn + js_value ConversationContext" where
  "addEntry_calls ctx [] = Inr ctx"
| "addEntry_calls ctx (e # es) =
     (case addEntry ctx e of Inl err \<Rightarrow> Inl err | Inr ctx' \<Rightarrow> addEntry_calls ctx' es)"

definition isValidClaudeMessage :: "ClaudeMessage \<Rightarrow> bool" where
  "isValidClaudeMessage msg = (role msg = js ''user'' \<or> role msg = js ''assistant'')"

definition validateHistory :: "ClaudeMessage list \<Rightarrow> exn + unit" where
  "validateHistory history =
     (if list_ex (\<lambda>msg. \<not> isValidClaudeMessage msg) history
      then Inl (ConversationError (js ''Invalid message format in history''))
      else Inr ())"

definition formatMessage :: "ClaudeMessage \<Rightarrow> js_string" where
  "formatMessage msg =
     (let text = (case content msg of
                    Parts cs \<Rightarrow> join (map part_text cs) newline
                  | Text s \<Rightarrow> s)
      in (if role msg = js ''user'' then js ''Human'' else js ''Assistant'') @ js '': '' @ text)"

text \<open>
  The loop \<open>for (i = history.length - 1; i >= 0; i--)\<close>: the counter of the model is
  \<open>i + 1\<close>, so \<open>history ! i\<close> is always in range; \<open>break\<close> returns what was collected.
\<close>

fun formatMessagesLoop ::
  "ClaudeMessage list \<Rightarrow> nat \<Rightarrow> nat \<Rightarrow> js_string list \<Rightarrow> nat \<Rightarrow> js_string list" where
  "formatMessagesLoop history maxLength 0 formattedMessages totalLength = formattedMessages"
| "formatMessagesLoop history maxLength (Suc i) formattedMessages totalLength =
     (let msg = history ! i;
          formattedMsg = formatMessage msg
      in if totalLength + length formattedMsg > maxLength then formattedMessages
         else formatMessagesLoop history maxLength i (formattedMessages @ [formattedMsg])
                (totalLength + length formattedMsg))"

definition formatMessagesWithinLimit :: "ClaudeMessage list \<Rightarrow> nat \<Rightarrow> js_string list" where
  "formatMessagesWithinLimit history maxLength =
     rev (formatMessagesLoop history maxLength (length history) [] 0)"

definition ConversationManager_formatHistoryForModel ::
  "ClaudeMessage list \<Rightarrow> bool \<Rightarrow> exn + js_string" where
  "ConversationManager_formatHistoryForModel history isDeepSeek =
     (case validateHistory history of
        Inl e \<Rightarrow> Inl e
      | Inr _ \<Rightarrow>
          (let maxLength = (if isDeepSeek then DEEPSEEK_MAX_LENGTH else CLAUDE_MAX_LENGTH);
               formattedMessages = formatMessagesWithinLimit history maxLength
           in Inr (join formattedMessages (js ''\<newline>\<newline>''))))"

section \<open>TaskManager (task manager module)\<close>

text \<open>
  The registry is the \<open>Map\<close> from task id to record. \<open>uuidv4()\<close> and \<open>Date.now()\<close> are
  inputs of the model: the caller of an operation supplies the id drawn and the clock
  reading.
\<close>

type_synonym registry = "js_string \<rightharpoonup> TaskInfo"

definition createTask ::
  "registry \<Rightarrow> js_string \<Rightarrow> bool option \<Rightarrow> js_string \<Rightarrow> int \<Rightarrow> exn + (js_string \<times> registry)" where
  "createTask tasks p sr uuid now =
     (if trim p = [] then Inl (TaskError (js ''Prompt cannot be empty''))
      else Inr (uuid, tasks(uuid \<mapsto>
             \<lparr>status = Pending, prompt = p, showReasoning = sr, reasoning = None,
              response = None, error = None, timestamp = now\<rparr>)))"

definition validateTaskId :: "js_string \<Rightarrow> exn + unit" where
  "validateTaskId taskId =
     (if taskId = [] then Inl (TaskError (js ''Invalid task ID'')) else Inr ())"


definition isTaskComplete :: "TaskStatus \<Rightarrow> bool" where
  "isTaskComplete s = (s \<in> set [Complete, Error])"

definition getTask :: "registry \<Rightarrow> js_string \<Rightarrow> exn + TaskInfo option" where
  "getTask tasks taskId =
     (case validateTaskId taskId of Inl e \<Rightarrow> Inl e | Inr _ \<Rightarrow> Inr (tasks taskId))"

text \<open>
  \<open>Partial<TaskInfo>\<close>: \<open>None\<close> is a key the object does not have. For the optional fields
  of \<open>TaskInfo\<close> a key can be present with the value \<open>undefined\<close>, which is \<open>Some None\<close>.
\<close>

record TaskInfoUpdates =
  upd_status :: "TaskStatus option"
  upd_prompt :: "js_string option"
  upd_showReasoning :: "bool option option"
  upd_reasoning :: "js_string option option"
  upd_response :: "js_string option option"
  upd_error :: "js_string option option"
  upd_timestamp :: "int option"

definition noUpdates :: TaskInfoUpdates where
  "noUpdates = \<lparr>upd_status = None, upd_prompt = None, upd_showReasoning = None,
                upd_reasoning = None, upd_response = None, upd_error = None,
                upd_timestamp = None\<rparr>"

text \<open>The object spread \<open>{ ...task, ...updates }\<close>.\<close>

definition spread :: "TaskInfo \<Rightarrow> TaskInfoUpdates \<Rightarrow> TaskInfo" where
  "spread task u =
     \<lparr>status = (case upd_status u of None \<Rightarrow> status task | Some v \<Rightarrow> v),
      prompt = (case upd_prompt u of None \<Rightarrow> prompt task | Some v \<Rightarrow> v),
      showReasoning = (case upd_showReasoning u of None \<Rightarrow> showReasoning task | Some v \<Rightarrow> v),
      reasoning = (case upd_reasoning u of None \<Rightarrow> reasoning task | Some v \<Rightarrow> v),
      response = (case upd_response u of None \<Rightarrow> response task | Some v \<Rightarrow> v),
      error = (case upd_error u of None \<Rightarrow> error task | Some v \<Rightarrow> v),
      timestamp = (case upd_timestamp u of None \<Rightarrow> timestamp task | Some v \<Rightarrow> v)\<rparr>"

definition updateTask ::
  "registry \<Rightarrow> js_string \<Rightarrow> TaskInfoUpdates \<Rightarrow> int \<Rightarrow> exn + registry" where
  "updateTask tasks taskId updates now =
     (case validateTaskId taskId of
        Inl e \<Rightarrow> Inl e
      | Inr _ \<Rightarrow>
          (case tasks taskId of
             None \<Rightarrow> Inl (TaskError (js ''Task '' @ taskId @ js '' not found''))
           | Some task \<Rightarrow> Inr (tasks(taskId \<mapsto> (spread task updates)\<lparr>timestamp := now\<rparr>))))"

definition setTaskStatus ::
  "registry \<Rightarrow> js_string \<Rightarrow> TaskStatus \<Rightarrow> TaskInfoUpdates \<Rightarrow> int \<Rightarrow> exn + registry" where
  "setTaskStatus tasks taskId s additionalInfo now =
     (case validateTaskId taskId of
        Inl e \<Rightarrow> Inl e
      | Inr _ \<Rightarrow>
          (case tasks taskId of
             None \<Rightarrow> Inl (TaskError (js ''Task '' @ taskId @ js '' not found''))
           | Some task \<Rightarrow>
               Inr (tasks(taskId \<mapsto> (spread task additionalInfo)\<lparr>status := s, timestamp := now\<rparr>))))"

text \<open>
  Waiting. The registry changes while a call is suspended, so a waiting call reads a
  sequence of registries: \<open>view 0\<close> at the call, \<open>view k\<close> at the \<open>k\<close>-th run of the interval
  callback, and \<open>view (ticks + 1)\<close> when the timeout callback runs, where \<open>ticks\<close> is the
  number of interval callbacks that the timers let run before the timeout. The polling
  promise settles at one of these events; its value is the index of that event, and the
  code that follows the \<open>await\<close> reads the registry of that event.

  \<open>pollInterval view taskId initialStatus gone n k\<close> runs the interval callback for the
  events \<open>k\<close>, \<open>k + 1\<close>, ... with \<open>n\<close> callbacks left before the timeout. The error of the
  rejection, \<open>gone\<close>, is a parameter of the loop since the two waiting functions reject
  with different errors.
\<close>

fun pollInterval ::
  "(nat \<Rightarrow> registry) \<Rightarrow> js_string \<Rightarrow> TaskStatus \<Rightarrow> exn \<Rightarrow> nat \<Rightarrow> nat \<Rightarrow> exn + nat" where
  "pollInterval view taskId initialStatus gone 0 k = Inr k"
| "pollInterval view taskId initialStatus gone (Suc n) k =
     (case view k taskId of
        None \<Rightarrow> Inl gone
      | Some currentTask \<Rightarrow>
          (if status currentTask \<noteq> initialStatus \<or> isTaskComplete (status currentTask)
           then Inr k
           else pollInterval view taskId initialStatus gone n (Suc k)))"

definition POLL_INTERVAL :: nat where
  "POLL_INTERVAL = 100"


section \<open>The servers (index.ts and the declarative-tool server)\<close>

definition DEEPSEEK_MODEL :: js_string where
  "DEEPSEEK_MODEL = js ''deepseek/deepseek-r1''"

definition CLAUDE_MODEL :: js_string where
  "CLAUDE_MODEL = js ''anthropic/claude-3.5-sonnet:beta''"

subsection \<open>The history formatter, once per server file\<close>

fun formatHistoryLoop ::
  "ClaudeMessage list \<Rightarrow> nat \<Rightarrow> nat \<Rightarrow> js_string list \<Rightarrow> nat \<Rightarrow> js_string list" where
  "formatHistoryLoop history maxLength 0 formattedMessages totalLength = formattedMessages"
| "formatHistoryLoop history maxLength (Suc i) formattedMessages totalLength =
     (let msg = history ! i;
          text = (case content msg of
                    Parts cs \<Rightarrow> join (map part_text cs) newline
                  | Text s \<Rightarrow> s);
          formattedMsg =
            (if role msg = js ''user'' then js ''Human'' else js ''Assistant'') @ js '': '' @ text;
          msgLength = length formattedMsg
      in if totalLength + msgLength > maxLength then formattedMessages
         else formatHistoryLoop history maxLength i (formattedMessages @ [formattedMsg])
                (totalLength + msgLength))"

definition formatHistoryForModel :: "ClaudeMessage list \<Rightarrow> bool \<Rightarrow> js_string" where
  "formatHistoryForModel history isDeepSeek =
     (let maxLength = (if isDeepSeek then 50000 else 600000);
          formattedMessages = formatHistoryLoop history maxLength (length history) [] 0
      in join (rev formattedMessages) (js ''\<newline>\<newline>''))"

text \<open>The function of the same name in the declarative-tool server.\<close>

fun formatHistoryLoop_mcp ::
  "ClaudeMessage list \<Rightarrow> nat \<Rightarrow> nat \<Rightarrow> js_string list \<Rightarrow> nat \<Rightarrow> js_string list" where
  "formatHistoryLoop_mcp history maxLength 0 formattedMessages totalLength = formattedMessages"
| "formatHistoryLoop_mcp history maxLength (Suc i) formattedMessages totalLength =
     (let msg = history ! i;
          text = (case content msg of
                    Parts cs \<Rightarrow> join (map part_text cs) newline
                  | Text s \<Rightarrow> s);
          formattedMsg =
            (if role msg = js ''user'' then js ''Human'' else js ''Assistant'') @ js '': '' @ text;
          msgLength = length formattedMsg
      in if totalLength + msgLength > maxLength then formattedMessages
         else formatHistoryLoop_mcp history maxLength i (formattedMessages @ [formattedMsg])
                (totalLength + msgLength))"

definition formatHistoryForModel_mcp :: "ClaudeMessage list \<Rightarrow> bool \<Rightarrow> js_string" where
  "formatHistoryForModel_mcp history isDeepSeek =
     (let maxLength = (if isDeepSeek then 50000 else 600000);
          formattedMessages = formatHistoryLoop_mcp history maxLength (length history) [] 0
      in join (rev formattedMessages) (js ''\<newline>\<newline>''))"

subsection \<open>State and context buffer\<close>

text \<open>
  The fields \<open>this.context\<close> and \<open>this.activeTasks\<close> of \<open>DeepseekClaudeServer\<close>
  (\<open>context\<close> is a keyword here, hence the longer name).
\<close>

record server_state =
  conversationContext :: "ConversationEntry ConversationContext"
  activeTasks :: registry

definition initial_state :: server_state where
  "initial_state = \<lparr>conversationContext = \<lparr>entries = [], maxEntries = 10\<rparr>, activeTasks = Map.empty\<rparr>"

definition addToContext ::
  "'e ConversationContext \<Rightarrow> 'e \<Rightarrow> 'e ConversationContext" where
  "addToContext ctx entry =
     (let pushed = entries ctx @ [entry] in
      ctx\<lparr>entries := (if int (length pushed) > maxEntries ctx then tl pushed else pushed)\<rparr>)"

definition formatContextForPrompt :: "ConversationEntry ConversationContext \<Rightarrow> js_string" where
  "formatContextForPrompt ctx =
     join (map (\<lambda>entry. js ''Question: '' @ entry_prompt entry @ newline @
                         js ''Reasoning: '' @ entry_reasoning entry @ newline @
                         js ''Answer: '' @ entry_response entry) (entries ctx))
          (js ''\<newline>\<newline>'')"

subsection \<open>The two remote calls\<close>

text \<open>
  What \<open>chat.completions.create\<close> resolves to, as far as the servers read it. A remote
  call is a function from the request to either the value thrown or the response.
\<close>

record api_message =
  message_reasoning :: "js_string option"
  message_content :: "js_string option"

record api_choice =
  choice_message :: "api_message option"

record api_response =
  choices :: "api_choice list option"

record chat_message =
  chat_role :: js_string
  chat_content :: js_string

text \<open>\<open>responseData.choices?.[0]?.message?.reasoning\<close>\<close>

definition choicesReasoning :: "api_response \<Rightarrow> js_string option" where
  "choicesReasoning responseData =
     (case choices responseData of
        None \<Rightarrow> None
      | Some [] \<Rightarrow> None
      | Some (c # _) \<Rightarrow>
          (case choice_message c of None \<Rightarrow> None | Some m \<Rightarrow> message_reasoning m))"

text \<open>The constant \<open>contextPrompt\<close> of \<open>getDeepseekReasoning\<close>: the request it sends.\<close>

definition contextPrompt :: "ConversationEntry ConversationContext \<Rightarrow> js_string \<Rightarrow> js_string" where
  "contextPrompt ctx p =
     (if length (entries ctx) > 0
      then js ''Previous conversation:'' @ newline @ formatContextForPrompt ctx @
           js ''\<newline>\<newline>New question: '' @ p
      else p)"

definition getDeepseekReasoning ::
  "ConversationEntry ConversationContext \<Rightarrow> (js_string \<Rightarrow> exn + api_response) \<Rightarrow> js_string
     \<Rightarrow> exn + js_string" where
  "getDeepseekReasoning ctx create p =
     (case create (contextPrompt ctx p) of
        Inl e \<Rightarrow> Inl e
      | Inr responseData \<Rightarrow>
          (case choicesReasoning responseData of
             None \<Rightarrow> Inl (JsError (js ''No reasoning received from DeepSeek''))
           | Some r \<Rightarrow>
               if r = [] then Inl (JsError (js ''No reasoning received from DeepSeek''))
               else Inr r))"

text \<open>
  The array \<open>messages\<close> of \<open>getFinalResponse\<close> after the \<open>unshift\<close>: the buffered turns,
  the prompt, the reasoning.
\<close>

definition chatMessages ::
  "ConversationEntry ConversationContext \<Rightarrow> js_string \<Rightarrow> js_string \<Rightarrow> chat_message list" where
  "chatMessages ctx p r =
     (let messages =
            [\<lparr>chat_role = js ''user'', chat_content = p\<rparr>,
             \<lparr>chat_role = js ''assistant'',
              chat_content = js ''<thinking>'' @ r @ js ''</thinking>''\<rparr>]
      in if length (entries ctx) > 0
         then concat (map (\<lambda>entry.
                  [\<lparr>chat_role = js ''user'', chat_content = entry_prompt entry\<rparr>,
                   \<lparr>chat_role = js ''assistant'', chat_content = entry_response entry\<rparr>])
                (entries ctx)) @ messages
         else messages)"

definition getFinalResponse ::
  "ConversationEntry ConversationContext \<Rightarrow> (chat_message list \<Rightarrow> exn + api_response)
     \<Rightarrow> js_string \<Rightarrow> js_string \<Rightarrow> exn + js_string" where
  "getFinalResponse ctx create p r =
     (case create (chatMessages ctx p r) of
        Inl e \<Rightarrow> Inl e
      | Inr resp \<Rightarrow>
          (case choices resp of
             None \<Rightarrow> Inl (typeErrorReading ''0'')
           | Some [] \<Rightarrow> Inl (typeErrorReading ''message'')
           | Some (c # _) \<Rightarrow>
               (case choice_message c of
                  None \<Rightarrow> Inl (typeErrorReading ''content'')
                | Some m \<Rightarrow>
                    (case message_content m of
                       None \<Rightarrow> Inr (js ''Error: No response content'')
                     | Some t \<Rightarrow>
                         if t = [] then Inr (js ''Error: No response content'')
                         else Inr t))))"

subsection \<open>processTask\<close>

text \<open>
  What one run of \<open>processTask\<close> gets from outside: the result of
  \<open>findActiveConversation()\<close> (which catches every error and returns \<open>null\<close>), the two
  remote calls, and the readings of \<open>Date.now()\<close> in the order the run asks for them.
\<close>

record environment =
  findActiveConversation :: "ClaudeMessage list option"
  createDeepseek :: "js_string \<Rightarrow> exn + api_response"
  createClaude :: "chat_message list \<Rightarrow> exn + api_response"
  dateNow :: "nat \<Rightarrow> int"

text \<open>
  The pieces of the body of \<open>processTask\<close>, in the order of the source. \<open>task\<close> is the
  record read when the run began; every later write spreads that same record.
\<close>

text \<open>The optional clear and the write of \<open>'reasoning'\<close>.\<close>

definition beginTask ::
  "server_state \<Rightarrow> js_string \<Rightarrow> TaskInfo \<Rightarrow> bool option \<Rightarrow> server_state" where
  "beginTask st taskId task clearContextArg =
     st\<lparr>conversationContext :=
          (if clearContextArg = Some True then (conversationContext st)\<lparr>entries := []\<rparr>
           else conversationContext st),
        activeTasks := (activeTasks st)(taskId \<mapsto> task\<lparr>status := Reasoning\<rparr>)\<rparr>"

definition historyFor :: "environment \<Rightarrow> bool option \<Rightarrow> ClaudeMessage list option" where
  "historyFor env includeHistory =
     (if includeHistory \<noteq> Some False then findActiveConversation env else None)"

definition reasoningPrompt :: "environment \<Rightarrow> TaskInfo \<Rightarrow> bool option \<Rightarrow> js_string" where
  "reasoningPrompt env task includeHistory =
     (let reasoningHistory = (case historyFor env includeHistory of
                                Some h \<Rightarrow> formatHistoryForModel h True
                              | None \<Rightarrow> [])
      in if reasoningHistory \<noteq> []
         then reasoningHistory @ js ''\<newline>\<newline>New question: '' @ prompt task
         else prompt task)"

text \<open>\<open>await this.getDeepseekReasoning(reasoningPrompt)\<close>, in the state \<open>st1\<close> it runs in.\<close>

definition reasoningStage ::
  "environment \<Rightarrow> server_state \<Rightarrow> TaskInfo \<Rightarrow> bool option \<Rightarrow> exn + js_string" where
  "reasoningStage env st1 task includeHistory =
     getDeepseekReasoning (conversationContext st1) (createDeepseek env)
       (reasoningPrompt env task includeHistory)"

text \<open>The write of \<open>'responding'\<close>.\<close>

definition respondingTask ::
  "server_state \<Rightarrow> js_string \<Rightarrow> TaskInfo \<Rightarrow> js_string \<Rightarrow> server_state" where
  "respondingTask st1 taskId task r =
     st1\<lparr>activeTasks := (activeTasks st1)(taskId \<mapsto>
           task\<lparr>status := Responding, reasoning := Some r\<rparr>)\<rparr>"

definition fullPrompt :: "environment \<Rightarrow> TaskInfo \<Rightarrow> bool option \<Rightarrow> js_string" where
  "fullPrompt env task includeHistory =
     (let responseHistory = (case historyFor env includeHistory of
                               Some h \<Rightarrow> formatHistoryForModel h False
                             | None \<Rightarrow> [])
      in if responseHistory \<noteq> []
         then responseHistory @ js ''\<newline>\<newline>Current task: '' @ prompt task
         else prompt task)"

text \<open>\<open>await this.getFinalResponse(fullPrompt, reasoning)\<close>, in the state \<open>st2\<close>.\<close>

definition responseStage ::
  "environment \<Rightarrow> server_state \<Rightarrow> TaskInfo \<Rightarrow> bool option \<Rightarrow> js_string \<Rightarrow> exn + js_string" where
  "responseStage env st2 task includeHistory r =
     getFinalResponse (conversationContext st2) (createClaude env)
       (fullPrompt env task includeHistory) r"

text \<open>The append to the buffer and the write of \<open>'complete'\<close>.\<close>

definition completeTask ::
  "environment \<Rightarrow> server_state \<Rightarrow> js_string \<Rightarrow> TaskInfo \<Rightarrow> js_string \<Rightarrow> js_string
     \<Rightarrow> server_state" where
  "completeTask env st2 taskId task r resp =
     st2\<lparr>conversationContext :=
           addToContext (conversationContext st2)
             \<lparr>entry_timestamp = dateNow env 0, entry_prompt = prompt task,
              entry_reasoning = r, entry_response = resp, entry_model = CLAUDE_MODEL\<rparr>,
         activeTasks := (activeTasks st2)(taskId \<mapsto>
           task\<lparr>status := Complete, reasoning := Some r, response := Some resp,
                timestamp := dateNow env 1\<rparr>)\<rparr>"

text \<open>The \<open>catch\<close> block, which throws the error again after the write.\<close>

definition catchBlock :: "server_state \<Rightarrow> js_string \<Rightarrow> TaskInfo \<Rightarrow> exn \<Rightarrow> int \<Rightarrow> server_state" where
  "catchBlock st' taskId task e now =
     st'\<lparr>activeTasks := (activeTasks st')(taskId \<mapsto>
           task\<lparr>status := Error,
                error := (if instanceofError e then message e else Some (js ''Unknown error'')),
                timestamp := now\<rparr>)\<rparr>"

text \<open>
  \<open>processTask\<close> is asynchronous: it runs up to an \<open>await\<close>, is suspended, and goes on.
  The model returns what the promise settles to (\<open>Some e\<close>: rejected with \<open>e\<close>) and the
  trace of the server's states: the state at the call, then the state at each suspension
  after a write, then the state when the run ends. The run is taken alone, with no other
  task writing between its steps. Both server files have the same text for it.
\<close>

definition processTask ::
  "environment \<Rightarrow> server_state \<Rightarrow> js_string \<Rightarrow> bool option \<Rightarrow> bool option
     \<Rightarrow> exn option \<times> server_state list" where
  "processTask env st taskId clearContextArg includeHistory =
     (case activeTasks st taskId of
        None \<Rightarrow> (Some (JsError (js ''No task found with ID: '' @ taskId)), [st])
      | Some task \<Rightarrow>
          (let st1 = beginTask st taskId task clearContextArg in
           case reasoningStage env st1 task includeHistory of
             Inl e \<Rightarrow> (Some e, [st, st1, catchBlock st1 taskId task e (dateNow env 0)])
           | Inr r \<Rightarrow>
               (let st2 = respondingTask st1 taskId task r in
                case responseStage env st2 task includeHistory r of
                  Inl e \<Rightarrow>
                    (Some e, [st, st1, st2, catchBlock st2 taskId task e (dateNow env 0)])
                | Inr resp \<Rightarrow>
                    (None, [st, st1, st2, completeTask env st2 taskId task r resp]))))"

text \<open>
  What the trace shows of one task: its status, its timestamp and its error field in each
  state.
\<close>

definition statusTrace :: "js_string \<Rightarrow> server_state list \<Rightarrow> TaskStatus option list" where
  "statusTrace taskId trace = map (\<lambda>s. map_option status (activeTasks s taskId)) trace"

definition timestampTrace :: "js_string \<Rightarrow> server_state list \<Rightarrow> int option list" where
  "timestampTrace taskId trace = map (\<lambda>s. map_option timestamp (activeTasks s taskId)) trace"


subsection \<open>The tool handlers of index.ts\<close>

definition isValidGenerateResponseArgs :: "js_value \<Rightarrow> bool" where
  "isValidGenerateResponseArgs args =
     (typeof args = ''object'' \<and> args \<noteq> JsNull \<and>
      typeof (get_prop args ''prompt'') = ''string'' \<and>
      (get_prop args ''showReasoning'' = JsUndefined \<or>
         typeof (get_prop args ''showReasoning'') = ''boolean'') \<and>
      (get_prop args ''clearContext'' = JsUndefined \<or>
         typeof (get_prop args ''clearContext'') = ''boolean'') \<and>
      (get_prop args ''includeHistory'' = JsUndefined \<or>
         typeof (get_prop args ''includeHistory'') = ''boolean''))"

definition isValidCheckResponseStatusArgs :: "js_value \<Rightarrow> bool" where
  "isValidCheckResponseStatusArgs args =
     (typeof args = ''object'' \<and> args \<noteq> JsNull \<and>
      typeof (get_prop args ''taskId'') = ''string'')"

text \<open>Reading a checked argument: a string, and a boolean that may be absent.\<close>

fun stringOf :: "js_value \<Rightarrow> js_string" where
  "stringOf (JsString s) = s"
| "stringOf v = []"

fun booleanOf :: "js_value \<Rightarrow> bool option" where
  "booleanOf (JsBoolean b) = Some b"
| "booleanOf v = None"

text \<open>
  The callback of the \<open>.catch\<close> after \<open>this.processTask(...)\<close>. It builds the record
  before it stores it, and \<open>error.message\<close> is part of the record: when the caught value
  is \<open>null\<close> or \<open>undefined\<close> the read throws and nothing is stored. The handler has stored
  the task just before and nothing deletes from the map, so the record is there.
\<close>

definition processTaskRejected :: "server_state \<Rightarrow> js_string \<Rightarrow> exn \<Rightarrow> exn + server_state" where
  "processTaskRejected st taskId e =
     (case readMessage e of
        Inl thrown \<Rightarrow> Inl thrown
      | Inr m \<Rightarrow>
          (case activeTasks st taskId of
             None \<Rightarrow> Inr st
           | Some task \<Rightarrow>
               Inr (st\<lparr>activeTasks := (activeTasks st)(taskId \<mapsto>
                         task\<lparr>status := Error, error := m\<rparr>)\<rparr>)))"

text \<open>
  The registration of a task and the run it starts, as the handler of index.ts has them.
  The answer \<open>{ taskId }\<close> goes back to the caller while the run is suspended; the trace
  lists the states the server goes through from the registration on. When the run is
  rejected, the callback of the \<open>.catch\<close> follows the \<open>catch\<close> block of the run before the
  event loop takes up anything else; its state ends the trace, unless the callback threw,
  and then nothing in the server handles that rejection and the trace ends where the run
  left it.
\<close>

definition startTask ::
  "environment \<Rightarrow> server_state \<Rightarrow> js_string \<Rightarrow> bool option \<Rightarrow> bool option \<Rightarrow> bool option
     \<Rightarrow> js_string \<Rightarrow> int \<Rightarrow> js_string \<times> server_state list" where
  "startTask env st p sr cc ih taskId now =
     (let st0 = st\<lparr>activeTasks := (activeTasks st)(taskId \<mapsto>
                     \<lparr>status = Pending, prompt = p, showReasoning = sr, reasoning = None,
                      response = None, error = None, timestamp = now\<rparr>)\<rparr>
      in case processTask env st0 taskId cc ih of
           (None, trace) \<Rightarrow> (taskId, trace)
         | (Some e, trace) \<Rightarrow>
             (case processTaskRejected (last trace) taskId e of
                Inl thrown \<Rightarrow> (taskId, trace)
              | Inr st' \<Rightarrow> (taskId, trace @ [st'])))"

definition generate_response ::
  "environment \<Rightarrow> server_state \<Rightarrow> js_value \<Rightarrow> js_string \<Rightarrow> int
     \<Rightarrow> exn + (js_string \<times> server_state list)" where
  "generate_response env st args uuid now =
     (if \<not> isValidGenerateResponseArgs args
      then Inl (McpError InvalidParams (js ''Invalid generate_response arguments''))
      else Inr (startTask env st
                  (stringOf (get_prop args ''prompt''))
                  (booleanOf (get_prop args ''showReasoning''))
                  (booleanOf (get_prop args ''clearContext''))
                  (booleanOf (get_prop args ''includeHistory''))
                  uuid now))"

text \<open>
  The object a status check answers with. A field that is \<open>undefined\<close> is left out by
  \<open>JSON.stringify\<close>: \<open>None\<close> is an absent field.
\<close>

record status_result =
  result_status :: TaskStatus
  result_reasoning :: "js_string option"
  result_response :: "js_string option"
  result_error :: "js_string option"

definition statusResult :: "TaskInfo \<Rightarrow> status_result" where
  "statusResult task =
     \<lparr>result_status = status task,
      result_reasoning = (if showReasoning task = Some True then reasoning task else None),
      result_response = (if status task = Complete then response task else None),
      result_error = error task\<rparr>"

definition check_response_status :: "server_state \<Rightarrow> js_value \<Rightarrow> exn + status_result" where
  "check_response_status st args =
     (if \<not> isValidCheckResponseStatusArgs args
      then Inl (McpError InvalidParams (js ''Invalid check_response_status arguments''))
      else
        (let taskId = stringOf (get_prop args ''taskId'') in
         case activeTasks st taskId of
           None \<Rightarrow> Inl (McpError InvalidRequest (js ''No task found with ID: '' @ taskId))
         | Some task \<Rightarrow> Inr (statusResult task)))"

subsection \<open>The tool handlers of the declarative-tool server\<close>

text \<open>The arguments have passed the schema of the tool before the handler runs.\<close>

record GenerateResponseArgs =
  arg_prompt :: js_string
  arg_showReasoning :: "bool option"
  arg_clearContext :: "bool option"
  arg_includeHistory :: "bool option"

text \<open>
  The methods of the class of this server, translated from its own file. Each keeps the
  name it has there, with a suffix where index.ts has a method of the same name.
\<close>

definition addToContext_mcp ::
  "ConversationEntry ConversationContext \<Rightarrow> ConversationEntry
     \<Rightarrow> ConversationEntry ConversationContext" where
  "addToContext_mcp ctx entry =
     (let pushed = entries ctx @ [entry] in
      ctx\<lparr>entries := (if int (length pushed) > maxEntries ctx then tl pushed else pushed)\<rparr>)"

definition formatContextForPrompt_mcp :: "ConversationEntry ConversationContext \<Rightarrow> js_string" where
  "formatContextForPrompt_mcp ctx =
     join (map (\<lambda>entry. js ''Question: '' @ entry_prompt entry @ newline @
                         js ''Reasoning: '' @ entry_reasoning entry @ newline @
                         js ''Answer: '' @ entry_response entry) (entries ctx))
          (js ''\<newline>\<newline>'')"

definition getDeepseekReasoning_mcp ::
  "ConversationEntry ConversationContext \<Rightarrow> (js_string \<Rightarrow> exn + api_response) \<Rightarrow> js_string
     \<Rightarrow> exn + js_string" where
  "getDeepseekReasoning_mcp ctx create p =
     (let requestText =
            (if length (entries ctx) > 0
             then js ''Previous conversation:'' @ newline @ formatContextForPrompt_mcp ctx @
                  js ''\<newline>\<newline>New question: '' @ p
             else p)
      in case create requestText of
           Inl e \<Rightarrow> Inl e
         | Inr responseData \<Rightarrow>
             (case choices responseData of
                None \<Rightarrow> Inl (JsError (js ''No reasoning received from DeepSeek''))
              | Some [] \<Rightarrow> Inl (JsError (js ''No reasoning received from DeepSeek''))
              | Some (c # _) \<Rightarrow>
                  (case choice_message c of
                     None \<Rightarrow> Inl (JsError (js ''No reasoning received from DeepSeek''))
                   | Some m \<Rightarrow>
                       (case message_reasoning m of
                          None \<Rightarrow> Inl (JsError (js ''No reasoning received from DeepSeek''))
                        | Some r \<Rightarrow>
                            if r = []
                            then Inl (JsError (js ''No reasoning received from DeepSeek''))
                            else Inr r))))"

definition getFinalResponse_mcp ::
  "ConversationEntry ConversationContext \<Rightarrow> (chat_message list \<Rightarrow> exn + api_response)
     \<Rightarrow> js_string \<Rightarrow> js_string \<Rightarrow> exn + js_string" where
  "getFinalResponse_mcp ctx create p r =
     (let messages =
            [\<lparr>chat_role = js ''user'', chat_content = p\<rparr>,
             \<lparr>chat_role = js ''assistant'',
              chat_content = js ''<thinking>'' @ r @ js ''</thinking>''\<rparr>];
          contextMessages =
            concat (map (\<lambda>entry.
                      [\<lparr>chat_role = js ''user'', chat_content = entry_prompt entry\<rparr>,
                       \<lparr>chat_role = js ''assistant'', chat_content = entry_response entry\<rparr>])
                    (entries ctx));
          sent = (if length (entries ctx) > 0 then contextMessages @ messages else messages)
      in case create sent of
           Inl e \<Rightarrow> Inl e
         | Inr resp \<Rightarrow>
             (case choices resp of
                None \<Rightarrow> Inl (typeErrorReading ''0'')
              | Some [] \<Rightarrow> Inl (typeErrorReading ''message'')
              | Some (c # _) \<Rightarrow>
                  (case choice_message c of
                     None \<Rightarrow> Inl (typeErrorReading ''content'')
                   | Some m \<Rightarrow>
                       (case message_content m of
                          None \<Rightarrow> Inr (js ''Error: No response content'')
                        | Some t \<Rightarrow>
                            if t = [] then Inr (js ''Error: No response content'')
                            else Inr t))))"

text \<open>
  \<open>processTask\<close> of this server, written out in one piece, with the same reading of the
  promise and of the trace as for index.ts.
\<close>

definition processTask_mcp ::
  "environment \<Rightarrow> server_state \<Rightarrow> js_string \<Rightarrow> bool option \<Rightarrow> bool option
     \<Rightarrow> exn option \<times> server_state list" where
  "processTask_mcp env st taskId clearContextArg includeHistory =
     (case activeTasks st taskId of
        None \<Rightarrow> (Some (JsError (js ''No task found with ID: '' @ taskId)), [st])
      | Some task \<Rightarrow>
          (let st1 = st\<lparr>conversationContext :=
                          (if clearContextArg = Some True
                           then (conversationContext st)\<lparr>entries := []\<rparr>
                           else conversationContext st),
                        activeTasks := (activeTasks st)(taskId \<mapsto> task\<lparr>status := Reasoning\<rparr>)\<rparr>;
               history = (if includeHistory \<noteq> Some False then findActiveConversation env
                          else None);
               reasoningHistory = (case history of
                                     Some h \<Rightarrow> formatHistoryForModel_mcp h True
                                   | None \<Rightarrow> []);
               reasoningText =
                 (if reasoningHistory \<noteq> []
                  then reasoningHistory @ js ''\<newline>\<newline>New question: '' @ prompt task
                  else prompt task)
           in case getDeepseekReasoning_mcp (conversationContext st1) (createDeepseek env)
                     reasoningText of
                Inl e \<Rightarrow>
                  (Some e,
                   [st, st1,
                    st1\<lparr>activeTasks := (activeTasks st1)(taskId \<mapsto>
                          task\<lparr>status := Error,
                               error := (if instanceofError e then message e
                                         else Some (js ''Unknown error'')),
                               timestamp := dateNow env 0\<rparr>)\<rparr>])
              | Inr r \<Rightarrow>
                  (let st2 = st1\<lparr>activeTasks := (activeTasks st1)(taskId \<mapsto>
                                     task\<lparr>status := Responding, reasoning := Some r\<rparr>)\<rparr>;
                       responseHistory = (case history of
                                            Some h \<Rightarrow> formatHistoryForModel_mcp h False
                                          | None \<Rightarrow> []);
                       fullText =
                         (if responseHistory \<noteq> []
                          then responseHistory @ js ''\<newline>\<newline>Current task: '' @ prompt task
                          else prompt task)
                   in case getFinalResponse_mcp (conversationContext st2) (createClaude env)
                             fullText r of
                        Inl e \<Rightarrow>
                          (Some e,
                           [st, st1, st2,
                            st2\<lparr>activeTasks := (activeTasks st2)(taskId \<mapsto>
                                  task\<lparr>status := Error,
                                       error := (if instanceofError e then message e
                                                 else Some (js ''Unknown error'')),
                                       timestamp := dateNow env 0\<rparr>)\<rparr>])
                      | Inr resp \<Rightarrow>
                          (None,
                           [st, st1, st2,
                            st2\<lparr>conversationContext :=
                                  addToContext_mcp (conversationContext st2)
                                    \<lparr>entry_timestamp = dateNow env 0,
                                     entry_prompt = prompt task,
                                     entry_reasoning = r,
                                     entry_response = resp,
                                     entry_model = CLAUDE_MODEL\<rparr>,
                                activeTasks := (activeTasks st2)(taskId \<mapsto>
                                  task\<lparr>status := Complete, reasoning := Some r,
                                       response := Some resp,
                                       timestamp := dateNow env 1\<rparr>)\<rparr>]))))"

text \<open>
  The handler registers the task, starts the run and answers with the id; the callback of
  its \<open>.catch\<close> is the one of index.ts, word for word, and is read the same way.
\<close>

definition handleGenerateResponse ::
  "environment \<Rightarrow> server_state \<Rightarrow> GenerateResponseArgs \<Rightarrow> js_string \<Rightarrow> int
     \<Rightarrow> js_string \<times> server_state list" where
  "handleGenerateResponse env st args uuid now =
     (let taskId = uuid;
          st0 = st\<lparr>activeTasks := (activeTasks st)(taskId \<mapsto>
                     \<lparr>status = Pending, prompt = arg_prompt args,
                      showReasoning = arg_showReasoning args, reasoning = None,
                      response = None, error = None, timestamp = now\<rparr>)\<rparr>
      in case processTask_mcp env st0 taskId (arg_clearContext args) (arg_includeHistory args) of
           (None, trace) \<Rightarrow> (taskId, trace)
         | (Some e, trace) \<Rightarrow>
             (case readMessage e of
                Inl thrown \<Rightarrow> (taskId, trace)
              | Inr m \<Rightarrow>
                  (case activeTasks (last trace) taskId of
                     None \<Rightarrow> (taskId, trace @ [last trace])
                   | Some task \<Rightarrow>
                       (taskId,
                        trace @ [(last trace)\<lparr>activeTasks := (activeTasks (last trace))(taskId \<mapsto>
                                   task\<lparr>status := Error, error := m\<rparr>)\<rparr>]))))"

text \<open>
  The status check of this server waits as \<open>waitForTaskUpdate\<close> does, with the same reading
  of the events; \<open>ticks\<close> interval callbacks run before the timer of \<open>POLL_DELAY_MS\<close>.
\<close>

definition handleCheckResponseStatus ::
  "(nat \<Rightarrow> server_state) \<Rightarrow> nat \<Rightarrow> js_string \<Rightarrow> exn + (status_result \<times> nat)" where
  "handleCheckResponseStatus view ticks taskId =
     (case activeTasks (view 0) taskId of
        None \<Rightarrow> Inl (JsError (js ''No task found with ID: '' @ taskId))
      | Some task \<Rightarrow>
          if status task \<in> set [Complete, Error] then Inr (statusResult task, 0)
          else
            (let initialStatus = status task in
             case pollInterval (\<lambda>k. activeTasks (view k)) taskId initialStatus
                    (JsError (js ''Task '' @ taskId @ js '' no longer exists'')) ticks 1 of
               Inl e \<Rightarrow> Inl e
             | Inr k \<Rightarrow>
                 (case activeTasks (view k) taskId of
                    None \<Rightarrow> Inl (JsError (js ''Task '' @ taskId @ js '' no longer exists''))
                  | Some finalTask \<Rightarrow> Inr (statusResult finalTask, k))))"

section \<open>Vocabulary and concrete inputs of the statements\<close>

text \<open>The last \<open>k\<close> elements of a list, all of it when it is shorter.\<close>

definition window :: "nat \<Rightarrow> 'a list \<Rightarrow> 'a list" where
  "window k xs = drop (length xs - k) xs"

text \<open>An entry object that has the five fields.\<close>

definition sampleEntry :: "int \<Rightarrow> js_value" where
  "sampleEntry n =
     JsObject [(''timestamp'', JsNumber n), (''prompt'', JsString (js ''q'')),
               (''reasoning'', JsString (js ''r'')), (''response'', JsString (js ''a'')),
               (''model'', JsString (js ''m''))]"

text \<open>
  Two messages whose rendering is 25000 code units each: \<open>Human: \<close> and 24993 letters,
  \<open>Assistant: \<close> and 24989 letters.
\<close>

definition longUser :: ClaudeMessage where
  "longUser = \<lparr>role = js ''user'', content = Text (replicate 24993 0x61)\<rparr>"

definition longAssistant :: ClaudeMessage where
  "longAssistant = \<lparr>role = js ''assistant'', content = Text (replicate 24989 0x62)\<rparr>"

definition overlongHistory :: "ClaudeMessage list" where
  "overlongHistory = [longUser, longAssistant]"


text \<open>Replies of the remote calls, and environments built from them.\<close>

definition reasoningReply :: "js_string \<Rightarrow> api_response" where
  "reasoningReply r =
     \<lparr>choices = Some [\<lparr>choice_message =
        Some \<lparr>message_reasoning = Some r, message_content = None\<rparr>\<rparr>]\<rparr>"

definition contentReply :: "js_string option \<Rightarrow> api_response" where
  "contentReply t =
     \<lparr>choices = Some [\<lparr>choice_message =
        Some \<lparr>message_reasoning = None, message_content = t\<rparr>\<rparr>]\<rparr>"

text \<open>Both calls answer; the clock of the run reads 5000, 5001, ...\<close>

definition demoEnv :: environment where
  "demoEnv =
     \<lparr>findActiveConversation = None,
      createDeepseek = (\<lambda>p. Inr (reasoningReply (js ''because''))),
      createClaude = (\<lambda>ms. Inr (contentReply (Some (js ''answer'')))),
      dateNow = (\<lambda>k. 5000 + int k)\<rparr>"

text \<open>The reasoning call throws \<open>e\<close>.\<close>

definition throwingEnv :: "exn \<Rightarrow> environment" where
  "throwingEnv e = demoEnv\<lparr>createDeepseek := (\<lambda>p. Inl e)\<rparr>"

text \<open>The reasoning call answers with an empty reasoning text.\<close>

definition silentEnv :: environment where
  "silentEnv = demoEnv\<lparr>createDeepseek := (\<lambda>p. Inr (reasoningReply []))\<rparr>"

text \<open>The response call answers with an empty content.\<close>

definition blankReplyEnv :: environment where
  "blankReplyEnv = demoEnv\<lparr>createClaude := (\<lambda>ms. Inr (contentReply (Some [])))\<rparr>"

text \<open>A task as the handlers register it at clock reading 1000, and server states with it.\<close>

definition demoId :: js_string where
  "demoId = js ''t1''"

definition pendingTask :: "js_string \<Rightarrow> TaskInfo" where
  "pendingTask p =
     \<lparr>status = Pending, prompt = p, showReasoning = None, reasoning = None,
      response = None, error = None, timestamp = 1000\<rparr>"

definition pendingState :: "js_string \<Rightarrow> server_state" where
  "pendingState p = initial_state\<lparr>activeTasks := [demoId \<mapsto> pendingTask p]\<rparr>"



text \<open>A task in the response stage that did not ask for its reasoning.\<close>

definition hiddenTask :: TaskInfo where
  "hiddenTask = \<lparr>status = Responding, prompt = js ''hi'', showReasoning = Some False,
                  reasoning = Some (js ''because''), response = None, error = None,
                  timestamp = 1000\<rparr>"

definition hiddenState :: server_state where
  "hiddenState = initial_state\<lparr>activeTasks := [demoId \<mapsto> hiddenTask]\<rparr>"





text \<open>A task that is complete.\<close>

definition doneTask :: TaskInfo where
  "doneTask = \<lparr>status = Complete, prompt = js ''hi'', showReasoning = Some True,
                reasoning = Some (js ''because''), response = Some (js ''answer''),
                error = None, timestamp = 5001\<rparr>"

lemmas write_defs = beginTask_def respondingTask_def completeTask_def catchBlock_def

lemmas run_defs = processTask_def reasoningStage_def responseStage_def write_defs

lemmas call_defs = getDeepseekReasoning_def getFinalResponse_def choicesReasoning_def
  reasoningPrompt_def fullPrompt_def historyFor_def contextPrompt_def chatMessages_def

lemmas demo_defs = demoEnv_def throwingEnv_def pendingState_def pendingTask_def
  reasoningReply_def contentReply_def initial_state_def

section \<open>The context buffer keeps the last entries\<close>

lemma window_snoc:
  assumes "0 < k"
  shows "window k (xs @ [e]) =
         (if length (window k xs @ [e]) > k then tl (window k xs @ [e]) else window k xs @ [e])"
proof (cases "length xs < k")
  case True
  then show ?thesis by (simp add: window_def)
next
  case False
  then have le: "k \<le> length xs" by simp
  have ne: "drop (length xs - k) xs \<noteq> []" using le assms by simp
  have "tl (drop (length xs - k) xs @ [e]) = drop (Suc (length xs - k)) xs @ [e]"
    using ne by (simp add: drop_Suc tl_drop)
  moreover have "Suc (length xs) - k = Suc (length xs - k)" using le by simp
  ultimately show ?thesis using le assms by (simp add: window_def)
qed

lemma addToContext_window:
  assumes "0 < maxEntries c" and "entries c = window (nat (maxEntries c)) pre"
  shows "entries (addToContext c e) = window (nat (maxEntries c)) (pre @ [e])"
    and "maxEntries (addToContext c e) = maxEntries c"
proof -
  have k: "0 < nat (maxEntries c)" using assms(1) by simp
  have "int (length (entries c @ [e])) > maxEntries c
          \<longleftrightarrow> length (entries c @ [e]) > nat (maxEntries c)"
    using assms(1) by linarith
  then show "entries (addToContext c e) = window (nat (maxEntries c)) (pre @ [e])"
    using window_snoc [OF k, of pre e] assms(2) by (simp add: addToContext_def Let_def)
  show "maxEntries (addToContext c e) = maxEntries c"
    by (simp add: addToContext_def Let_def)
qed

lemma foldl_addToContext_window:
  "0 < maxEntries c \<Longrightarrow> entries c = window (nat (maxEntries c)) pre \<Longrightarrow>
   entries (foldl addToContext c es) = window (nat (maxEntries c)) (pre @ es)
   \<and> maxEntries (foldl addToContext c es) = maxEntries c"
proof (induction es arbitrary: c pre)
  case Nil
  then show ?case by simp
next
  case (Cons e es)
  have 1: "entries (addToContext c e) = window (nat (maxEntries (addToContext c e))) (pre @ [e])"
    using addToContext_window [OF Cons.prems] by simp
  have 2: "0 < maxEntries (addToContext c e)"
    using addToContext_window(2) [OF Cons.prems] Cons.prems(1) by simp
  show ?case
    using Cons.IH [OF 2 1] addToContext_window(2) [OF Cons.prems] by simp
qed

text \<open>\<open>addEntry\<close> on an entry that passes the check is \<open>addToContext\<close>.\<close>

lemma addEntry_valid:
  "validateEntry e = Inr () \<Longrightarrow> addEntry c e = Inr (addToContext c e)"
  by (simp add: addEntry_def addToContext_def Let_def)

lemma addEntry_calls_valid:
  "\<forall>e\<in>set es. validateEntry e = Inr () \<Longrightarrow>
   addEntry_calls c es = Inr (foldl addToContext c es)"
  by (induction es arbitrary: c) (simp_all add: addEntry_valid)

lemma ConversationManager_Inr:
  "ConversationManager arg = Inr c \<Longrightarrow>
   entries c = [] \<and> 0 < maxEntries c \<and>
   maxEntries c = (case arg of None \<Rightarrow> 10 | Some k \<Rightarrow> k)"
  by (auto simp: ConversationManager_def validateMaxEntries_def Let_def DEFAULT_MAX_ENTRIES_def
      split: if_splits option.splits)

lemma validateEntry_sampleEntry: "validateEntry (sampleEntry n) = Inr ()"
  by (simp add: validateEntry_def sampleEntry_def requiredFields_def)

text \<open>
  C2. A manager built with capacity \<open>K\<close> accepts every run of \<open>addEntry\<close> calls on entries
  that pass \<open>validateEntry\<close>, and after \<open>N\<close> calls it holds the last \<open>min N K\<close> entries of
  the run, oldest first, never more than \<open>K\<close>. The buffer of the servers, which starts
  empty with capacity 10 and grows by \<open>addToContext\<close>, holds the last \<open>min N 10\<close>. Since
  the run is any run, the bound holds after each single call as well.
\<close>

theorem capacity_invariant:
  "(ConversationManager (Some K) = Inr ctx0 \<and> (\<forall>e\<in>set es. validateEntry e = Inr ()) \<longrightarrow>
      (\<exists>ctx. addEntry_calls ctx0 es = Inr ctx \<and>
             getEntries ctx = drop (length es - nat K) es \<and>
             length (getEntries ctx) = min (length es) (nat K) \<and>
             int (length (getEntries ctx)) \<le> K)) \<and>
   (let ctx = foldl addToContext (conversationContext initial_state) es' in
      entries ctx = drop (length es' - 10) es' \<and>
      length (entries ctx) = min (length es') 10)"
proof (intro conjI impI)
  assume a: "ConversationManager (Some K) = Inr ctx0 \<and> (\<forall>e\<in>set es. validateEntry e = Inr ())"
  then have c0: "entries ctx0 = []" "0 < maxEntries ctx0" "maxEntries ctx0 = K"
    using ConversationManager_Inr [of "Some K" ctx0] by simp_all
  have w: "entries ctx0 = window (nat (maxEntries ctx0)) []" using c0 by (simp add: window_def)
  have run: "addEntry_calls ctx0 es = Inr (foldl addToContext ctx0 es)"
    using a addEntry_calls_valid by blast
  have e: "entries (foldl addToContext ctx0 es) = window (nat K) es"
    using foldl_addToContext_window [OF c0(2) w, of es] c0(3) by simp
  show "\<exists>ctx. addEntry_calls ctx0 es = Inr ctx \<and>
             getEntries ctx = drop (length es - nat K) es \<and>
             length (getEntries ctx) = min (length es) (nat K) \<and>
             int (length (getEntries ctx)) \<le> K"
    using run e c0 by (auto simp: getEntries_def window_def)
next
  let ?c = "conversationContext initial_state"
  have m: "0 < maxEntries ?c" "maxEntries ?c = 10" by (simp_all add: initial_state_def)
  have w: "entries ?c = window (nat (maxEntries ?c)) []"
    by (simp add: initial_state_def window_def)
  have "entries (foldl addToContext ?c es') = window 10 es'"
    using foldl_addToContext_window [OF m(1) w, of es'] m(2) by simp
  then show "let ctx = foldl addToContext ?c es' in
      entries ctx = drop (length es' - 10) es' \<and> length (entries ctx) = min (length es') 10"
    by (simp add: window_def Let_def)
qed

text \<open>Capacity 2 and three entries: the first one is gone, the other two stay in order.\<close>

theorem capacity_invariant_witness:
  "ConversationManager (Some 2) = Inr \<lparr>entries = [], maxEntries = 2\<rparr> \<and>
   validateEntry (sampleEntry 1) = Inr () \<and> validateEntry (sampleEntry 2) = Inr () \<and>
   validateEntry (sampleEntry 3) = Inr () \<and>
   (\<exists>ctx. addEntry_calls \<lparr>entries = [], maxEntries = 2\<rparr>
            [sampleEntry 1, sampleEntry 2, sampleEntry 3] = Inr ctx \<and>
          getEntries ctx = [sampleEntry 2, sampleEntry 3])"
proof -
  have c: "ConversationManager (Some 2) = Inr \<lparr>entries = [], maxEntries = 2\<rparr>"
    by (simp add: ConversationManager_def validateMaxEntries_def)
  have v: "\<forall>e\<in>set [sampleEntry 1, sampleEntry 2, sampleEntry 3]. validateEntry e = Inr ()"
    by (simp add: validateEntry_sampleEntry)
  show ?thesis
    using capacity_invariant [of 2 "\<lparr>entries = [], maxEntries = 2\<rparr>"
        "[sampleEntry 1, sampleEntry 2, sampleEntry 3]" "[]"] c v
    by auto
qed

section \<open>The history formatter\<close>

lemma length_js: "length (js s) = length s"
  by (simp add: js_def)

lemma length_join:
  "length (join xs sep) = sum_list (map length xs) + length sep * (length xs - 1)"
  by (induction xs sep rule: join.induct) simp_all

text \<open>The loop written in each of the two server files is the loop of \<open>ConversationManager\<close>.\<close>

lemma formatHistoryLoop_eq:
  "formatHistoryLoop h L n acc t = formatMessagesLoop h L n acc t"
  by (induction n arbitrary: acc t) (simp_all add: formatMessage_def Let_def)

lemma formatHistoryLoop_mcp_eq:
  "formatHistoryLoop_mcp h L n acc t = formatMessagesLoop h L n acc t"
  by (induction n arbitrary: acc t) (simp_all add: formatMessage_def Let_def)

lemma formatHistoryForModel_eq:
  "formatHistoryForModel h b =
     join (formatMessagesWithinLimit h (if b then 50000 else 600000)) (js ''\<newline>\<newline>'')"
  by (simp add: formatHistoryForModel_def formatMessagesWithinLimit_def formatHistoryLoop_eq
      Let_def)

lemma formatHistoryForModel_mcp_eq:
  "formatHistoryForModel_mcp h b =
     join (formatMessagesWithinLimit h (if b then 50000 else 600000)) (js ''\<newline>\<newline>'')"
  by (simp add: formatHistoryForModel_mcp_def formatMessagesWithinLimit_def
      formatHistoryLoop_mcp_eq Let_def)

text \<open>
  What the loop collects from the first \<open>n\<close> messages: the renderings of a suffix of them,
  most recent first, whose lengths add up to at most what is left of \<open>L\<close>.
\<close>

lemma formatMessagesLoop_suffix:
  "n \<le> length h \<Longrightarrow> t \<le> L \<Longrightarrow>
   \<exists>k\<le>n. formatMessagesLoop h L n acc t = acc @ rev (map formatMessage (drop k (take n h)))
        \<and> t + sum_list (map (length \<circ> formatMessage) (drop k (take n h))) \<le> L"
proof (induction n arbitrary: acc t)
  case 0
  then show ?case by simp
next
  case (Suc i)
  let ?f = "formatMessage (h ! i)"
  have i: "i < length h" using Suc.prems by simp
  have tk: "take (Suc i) h = take i h @ [h ! i]" using i by (simp add: take_Suc_conv_app_nth)
  show ?case
  proof (cases "t + length ?f > L")
    case True
    then have "formatMessagesLoop h L (Suc i) acc t = acc" by (simp add: Let_def)
    then show ?thesis using Suc.prems by (intro exI [of _ "Suc i"]) simp
  next
    case False
    then have step: "formatMessagesLoop h L (Suc i) acc t
                     = formatMessagesLoop h L i (acc @ [?f]) (t + length ?f)"
      by (simp add: Let_def)
    from False have le: "t + length ?f \<le> L" by simp
    have il: "i \<le> length h" using i by simp
    from Suc.IH [OF il le, of "acc @ [?f]"]
    obtain k where k: "k \<le> i"
      "formatMessagesLoop h L i (acc @ [?f]) (t + length ?f)
         = (acc @ [?f]) @ rev (map formatMessage (drop k (take i h)))"
      "t + length ?f + sum_list (map (length \<circ> formatMessage) (drop k (take i h))) \<le> L"
      by blast
    have dr: "drop k (take (Suc i) h) = drop k (take i h) @ [h ! i]"
      using k(1) i by (simp add: tk)
    show ?thesis
      using k step by (intro exI [of _ k]) (simp add: dr comp_def)
  qed
qed

text \<open>
  So the messages kept are a suffix of the history, in chronological order, and the sum
  of their lengths, which is what the loop compares with the bound, stays within it. The
  separators that \<open>join\<close> puts between them are not part of that sum.
\<close>

lemma formatMessagesWithinLimit_suffix:
  "\<exists>k\<le>length h. formatMessagesWithinLimit h L = map formatMessage (drop k h)
       \<and> sum_list (map (length \<circ> formatMessage) (drop k h)) \<le> L"
  using formatMessagesLoop_suffix [of "length h" h 0 L "[]"]
  by (auto simp: formatMessagesWithinLimit_def rev_map)

lemma formatHistoryForModel_suffix:
  "\<exists>k\<le>length h.
     formatHistoryForModel h b = join (map formatMessage (drop k h)) (js ''\<newline>\<newline>'') \<and>
     sum_list (map (length \<circ> formatMessage) (drop k h)) \<le> (if b then 50000 else 600000) \<and>
     length (formatHistoryForModel h b)
       \<le> (if b then 50000 else 600000) + 2 * (length h - k - 1)"
proof -
  obtain k where k: "k \<le> length h"
    "formatMessagesWithinLimit h (if b then 50000 else 600000) = map formatMessage (drop k h)"
    "sum_list (map (length \<circ> formatMessage) (drop k h)) \<le> (if b then 50000 else 600000)"
    using formatMessagesWithinLimit_suffix [of h "if b then 50000 else 600000"] by blast
  have "length (formatHistoryForModel h b)
          = sum_list (map (length \<circ> formatMessage) (drop k h)) + 2 * (length h - k - 1)"
    by (simp add: formatHistoryForModel_eq k(2) length_join length_js)
  then show ?thesis
    using k by (intro exI [of _ k]) (simp add: formatHistoryForModel_eq)
qed

lemma validateHistory_Inr:
  "validateHistory h = Inr () \<longleftrightarrow> list_all isValidClaudeMessage h"
  by (simp add: validateHistory_def list_ex_iff list_all_iff)

lemma length_longUser: "length (formatMessage longUser) = 25000"
  by (simp add: longUser_def formatMessage_def length_js)

lemma length_longAssistant: "length (formatMessage longAssistant) = 25000"
  by (simp add: longAssistant_def formatMessage_def length_js js_def)

lemma overlongHistory_kept:
  "formatMessagesWithinLimit overlongHistory 50000
     = [formatMessage longUser, formatMessage longAssistant]"
  by (simp add: formatMessagesWithinLimit_def overlongHistory_def length_longUser
      length_longAssistant numeral_2_eq_2 Let_def)

lemma overlongHistory_valid: "validateHistory overlongHistory = Inr ()"
  by (simp add: validateHistory_def overlongHistory_def isValidClaudeMessage_def longUser_def
      longAssistant_def)

text \<open>
  C1. The claim: the string returned under the bound \<open>L\<close> (50000 for the reasoning
  stage) is never longer than \<open>L\<close>, and the messages in it are a suffix of the history.
  The second half holds (\<open>formatHistoryForModel_suffix\<close>). The first does not: the loop
  adds up the lengths of the messages and leaves out the two code units of each separator.
  For a user message and an assistant message of 25000 code units each the sum is exactly
  50000, both are kept, and each of the three formatters returns 50002 code units.
\<close>

theorem formatHistoryForModel_exceeds_limit:
  "length (formatHistoryForModel overlongHistory True) = 50002 \<and>
   length (formatHistoryForModel_mcp overlongHistory True) = 50002 \<and>
   ConversationManager_formatHistoryForModel overlongHistory True
     = Inr (formatHistoryForModel overlongHistory True) \<and>
   DEEPSEEK_MAX_LENGTH = 50000"
  by (simp add: formatHistoryForModel_eq formatHistoryForModel_mcp_eq
      ConversationManager_formatHistoryForModel_def overlongHistory_valid
      overlongHistory_kept length_longUser length_longAssistant length_js
      DEEPSEEK_MAX_LENGTH_def Let_def)

section \<open>One run of processTask\<close>

text \<open>A run on a registered task takes one of three courses.\<close>

lemma processTask_cases:
  assumes "activeTasks st taskId = Some task"
  obtains (reasoning_failed) e where
      "reasoningStage env (beginTask st taskId task cc) task ih = Inl e"
      "processTask env st taskId cc ih =
         (Some e, [st, beginTask st taskId task cc,
                   catchBlock (beginTask st taskId task cc) taskId task e (dateNow env 0)])"
  | (response_failed) r e where
      "reasoningStage env (beginTask st taskId task cc) task ih = Inr r"
      "responseStage env (respondingTask (beginTask st taskId task cc) taskId task r) task ih r
         = Inl e"
      "processTask env st taskId cc ih =
         (Some e, [st, beginTask st taskId task cc,
                   respondingTask (beginTask st taskId task cc) taskId task r,
                   catchBlock (respondingTask (beginTask st taskId task cc) taskId task r)
                     taskId task e (dateNow env 0)])"
  | (completed) r resp where
      "reasoningStage env (beginTask st taskId task cc) task ih = Inr r"
      "responseStage env (respondingTask (beginTask st taskId task cc) taskId task r) task ih r
         = Inr resp"
      "processTask env st taskId cc ih =
         (None, [st, beginTask st taskId task cc,
                 respondingTask (beginTask st taskId task cc) taskId task r,
                 completeTask env (respondingTask (beginTask st taskId task cc) taskId task r)
                   taskId task r resp])"
proof (cases "reasoningStage env (beginTask st taskId task cc) task ih")
  case (Inl e)
  then show ?thesis using assms reasoning_failed by (simp add: processTask_def Let_def)
next
  case (Inr r)
  note r = this
  show ?thesis
  proof (cases "responseStage env (respondingTask (beginTask st taskId task cc) taskId task r)
                  task ih r")
    case (Inl e)
    then show ?thesis using assms r response_failed by (simp add: processTask_def Let_def)
  next
    case (Inr resp)
    then show ?thesis using assms r completed by (simp add: processTask_def Let_def)
  qed
qed




text \<open>
  The methods of the declarative-tool server are those of index.ts, and so is its
  \<open>processTask\<close> and, on arguments that index.ts accepts, its handler.
\<close>

lemma addToContext_mcp_eq: "addToContext_mcp ctx entry = addToContext ctx entry"
  by (simp add: addToContext_mcp_def addToContext_def)

lemma formatContextForPrompt_mcp_eq: "formatContextForPrompt_mcp ctx = formatContextForPrompt ctx"
  by (simp add: formatContextForPrompt_mcp_def formatContextForPrompt_def)

lemma getDeepseekReasoning_mcp_eq:
  "getDeepseekReasoning_mcp ctx create p = getDeepseekReasoning ctx create p"
  by (simp add: getDeepseekReasoning_mcp_def getDeepseekReasoning_def contextPrompt_def
      choicesReasoning_def formatContextForPrompt_mcp_eq Let_def
      split: sum.splits option.splits list.splits)

lemma getFinalResponse_mcp_eq:
  "getFinalResponse_mcp ctx create p r = getFinalResponse ctx create p r"
  by (simp add: getFinalResponse_mcp_def getFinalResponse_def chatMessages_def Let_def)

lemma formatHistoryForModel_mcp_same:
  "formatHistoryForModel_mcp h b = formatHistoryForModel h b"
  by (simp only: formatHistoryForModel_eq formatHistoryForModel_mcp_eq)

lemmas stage_defs = reasoningStage_def responseStage_def reasoningPrompt_def fullPrompt_def
  historyFor_def

lemmas mcp_eqs = getDeepseekReasoning_mcp_eq getFinalResponse_mcp_eq addToContext_mcp_eq
  formatHistoryForModel_mcp_same

lemma processTask_mcp_eq:
  "processTask_mcp env st taskId cc ih = processTask env st taskId cc ih"
  unfolding processTask_mcp_def processTask_def stage_defs write_defs mcp_eqs Let_def
  by (rule refl)

lemma handleGenerateResponse_eq:
  "handleGenerateResponse env st args uuid now =
     startTask env st (arg_prompt args) (arg_showReasoning args) (arg_clearContext args)
       (arg_includeHistory args) uuid now"
  by (simp add: handleGenerateResponse_def startTask_def processTask_mcp_eq
      processTaskRejected_def Let_def split: prod.splits option.splits sum.splits)

lemma readMessage_Inr:
  "e \<noteq> ThrownNull \<Longrightarrow> e \<noteq> ThrownUndefined \<Longrightarrow> readMessage e = Inr (message e)"
  by (cases e) simp_all

lemma readMessage_Inl:
  "e = ThrownNull \<or> e = ThrownUndefined \<Longrightarrow> \<exists>t. readMessage e = Inl t"
  by auto

text \<open>The trace of a started run, from the course its run takes.\<close>

lemma startTask_trace:
  assumes "processTask env
             (st\<lparr>activeTasks := (activeTasks st)(taskId \<mapsto>
                   \<lparr>status = Pending, prompt = p, showReasoning = sr, reasoning = None,
                    response = None, error = None, timestamp = now\<rparr>)\<rparr>) taskId cc ih
           = (out, trace)"
  shows "snd (startTask env st p sr cc ih taskId now) =
           (case out of
              None \<Rightarrow> trace
            | Some e \<Rightarrow>
                (case processTaskRejected (last trace) taskId e of
                   Inl thrown \<Rightarrow> trace
                 | Inr st' \<Rightarrow> trace @ [st']))"
  using assms by (simp add: startTask_def Let_def split: option.splits sum.splits)

lemma processTaskRejected_nullish:
  "e = ThrownNull \<or> e = ThrownUndefined \<Longrightarrow> \<exists>t. processTaskRejected s taskId e = Inl t"
  by (auto simp: processTaskRejected_def)

lemma processTaskRejected_write:
  assumes "e \<noteq> ThrownNull" and "e \<noteq> ThrownUndefined" and "activeTasks s taskId = Some t"
  shows "processTaskRejected s taskId e =
           Inr (s\<lparr>activeTasks := (activeTasks s)(taskId \<mapsto> t\<lparr>status := Error, error := message e\<rparr>)\<rparr>)"
  using assms by (simp add: processTaskRejected_def readMessage_Inr)

lemma startTask_failed:
  assumes "processTask env
             (st\<lparr>activeTasks := (activeTasks st)(taskId \<mapsto>
                   \<lparr>status = Pending, prompt = p, showReasoning = sr, reasoning = None,
                    response = None, error = None, timestamp = now\<rparr>)\<rparr>) taskId cc ih
           = (Some e, pre @ [catchBlock s taskId task e t])"
  shows "snd (startTask env st p sr cc ih taskId now) =
           pre @ [catchBlock s taskId task e t] @
           (if e = ThrownNull \<or> e = ThrownUndefined then []
            else [(catchBlock s taskId task e t)\<lparr>activeTasks :=
                    (activeTasks (catchBlock s taskId task e t))(taskId \<mapsto>
                       (task\<lparr>status := Error,
                              error := (if instanceofError e then message e
                                        else Some (js ''Unknown error'')),
                              timestamp := t\<rparr>)\<lparr>status := Error, error := message e\<rparr>)\<rparr>])"
proof (cases "e = ThrownNull \<or> e = ThrownUndefined")
  case True
  then obtain thrown where "processTaskRejected (catchBlock s taskId task e t) taskId e = Inl thrown"
    using processTaskRejected_nullish by blast
  then show ?thesis
    using True startTask_trace [OF assms] by simp
next
  case False
  have t: "activeTasks (catchBlock s taskId task e t) taskId =
             Some (task\<lparr>status := Error,
                        error := (if instanceofError e then message e
                                  else Some (js ''Unknown error'')),
                        timestamp := t\<rparr>)"
    by (simp add: catchBlock_def)
  have w: "processTaskRejected (catchBlock s taskId task e t) taskId e =
          Inr ((catchBlock s taskId task e t)\<lparr>activeTasks :=
                    (activeTasks (catchBlock s taskId task e t))(taskId \<mapsto>
                       (task\<lparr>status := Error,
                              error := (if instanceofError e then message e
                                        else Some (js ''Unknown error'')),
                              timestamp := t\<rparr>)\<lparr>status := Error, error := message e\<rparr>)\<rparr>)"
    using False by (intro processTaskRejected_write t) blast+
  show ?thesis
    using False startTask_trace [OF assms] by (simp add: w)
qed





text \<open>
  C8. The two stages treat an empty result differently. When the reasoning call answers
  without a reasoning text, or with an empty one, the run fails with
  \<open>No reasoning received from DeepSeek\<close> and the task ends in \<open>'error'\<close>. When the
  reasoning stage has succeeded and the response call answers with a message whose content
  is missing or empty, the run completes and the response of the task is the placeholder
  \<open>Error: No response content\<close>.
\<close>

theorem empty_results_asymmetry:
  assumes "activeTasks st taskId = Some task"
  shows "let st1 = beginTask st taskId task cc;
             run = processTask env st taskId cc ih;
             final = last (snd run)
         in (\<forall>resp. createDeepseek env (contextPrompt (conversationContext st1)
                       (reasoningPrompt env task ih)) = Inr resp \<and>
                    (choicesReasoning resp = None \<or> choicesReasoning resp = Some []) \<longrightarrow>
                fst run = Some (JsError (js ''No reasoning received from DeepSeek'')) \<and>
                statusTrace taskId (snd run) = [Some (status task), Some Reasoning, Some Error] \<and>
                map_option error (activeTasks final taskId)
                  = Some (Some (js ''No reasoning received from DeepSeek''))) \<and>
            (\<forall>r resp c cs m.
                reasoningStage env st1 task ih = Inr r \<and>
                createClaude env (chatMessages (conversationContext st1)
                  (fullPrompt env task ih) r) = Inr resp \<and>
                choices resp = Some (c # cs) \<and> choice_message c = Some m \<and>
                (message_content m = None \<or> message_content m = Some []) \<longrightarrow>
                fst run = None \<and>
                statusTrace taskId (snd run)
                  = [Some (status task), Some Reasoning, Some Responding, Some Complete] \<and>
                map_option response (activeTasks final taskId)
                  = Some (Some (js ''Error: No response content'')))"
proof -
  define st1 where "st1 = beginTask st taskId task cc"
  define run where "run = processTask env st taskId cc ih"
  define final where "final = last (snd run)"
  have A: "fst run = Some (JsError (js ''No reasoning received from DeepSeek'')) \<and>
           statusTrace taskId (snd run) = [Some (status task), Some Reasoning, Some Error] \<and>
           map_option error (activeTasks final taskId)
             = Some (Some (js ''No reasoning received from DeepSeek''))"
    if h: "createDeepseek env (contextPrompt (conversationContext st1)
             (reasoningPrompt env task ih)) = Inr resp \<and>
           (choicesReasoning resp = None \<or> choicesReasoning resp = Some [])" for resp
  proof -
    have f: "reasoningStage env st1 task ih
               = Inl (JsError (js ''No reasoning received from DeepSeek''))"
      using h by (auto simp: reasoningStage_def getDeepseekReasoning_def)
    have r: "run = (Some (JsError (js ''No reasoning received from DeepSeek'')),
                    [st, st1, catchBlock st1 taskId task
                       (JsError (js ''No reasoning received from DeepSeek'')) (dateNow env 0)])"
      using assms f by (simp add: run_def processTask_def st1_def Let_def)
    show ?thesis
      using assms
      by (simp add: r final_def statusTrace_def catchBlock_def st1_def beginTask_def)
  qed
  have B: "fst run = None \<and>
           statusTrace taskId (snd run)
             = [Some (status task), Some Reasoning, Some Responding, Some Complete] \<and>
           map_option response (activeTasks final taskId)
             = Some (Some (js ''Error: No response content''))"
    if h: "reasoningStage env st1 task ih = Inr r \<and>
           createClaude env (chatMessages (conversationContext st1)
             (fullPrompt env task ih) r) = Inr resp \<and>
           choices resp = Some (c # cs) \<and> choice_message c = Some m \<and>
           (message_content m = None \<or> message_content m = Some [])" for r resp c cs m
  proof -
    let ?st2 = "respondingTask st1 taskId task r"
    have c2: "conversationContext ?st2 = conversationContext st1"
      by (simp add: respondingTask_def)
    have g: "responseStage env ?st2 task ih r = Inr (js ''Error: No response content'')"
      using h by (auto simp: responseStage_def getFinalResponse_def c2)
    have r: "run = (None, [st, st1, ?st2,
                    completeTask env ?st2 taskId task r (js ''Error: No response content'')])"
      using assms h g by (simp add: run_def processTask_def st1_def Let_def)
    show ?thesis
      using assms
      by (simp add: r final_def statusTrace_def completeTask_def respondingTask_def st1_def
          beginTask_def)
  qed
  show ?thesis
    unfolding Let_def st1_def [symmetric] run_def [symmetric] final_def [symmetric]
    using A B by blast
qed

theorem empty_results_asymmetry_witness:
  "activeTasks (pendingState (js ''hi'')) demoId = Some (pendingTask (js ''hi'')) \<and>
   choicesReasoning (reasoningReply []) = Some [] \<and>
   statusTrace demoId (snd (processTask silentEnv (pendingState (js ''hi'')) demoId None None))
     = [Some Pending, Some Reasoning, Some Error] \<and>
   map_option error (activeTasks
     (last (snd (processTask silentEnv (pendingState (js ''hi'')) demoId None None))) demoId)
     = Some (Some (js ''No reasoning received from DeepSeek'')) \<and>
   statusTrace demoId (snd (processTask blankReplyEnv (pendingState (js ''hi'')) demoId None None))
     = [Some Pending, Some Reasoning, Some Responding, Some Complete] \<and>
   map_option response (activeTasks
     (last (snd (processTask blankReplyEnv (pendingState (js ''hi'')) demoId None None))) demoId)
     = Some (Some (js ''Error: No response content''))"
proof -
  let ?st = "pendingState (js ''hi'')" and ?task = "pendingTask (js ''hi'')"
  have t: "activeTasks ?st demoId = Some ?task" by (simp add: pendingState_def)
  have s: "status ?task = Pending" by (simp add: pendingTask_def)
  have a: "createDeepseek silentEnv q = Inr (reasoningReply [])" for q
    by (simp add: silentEnv_def)
  have b: "choicesReasoning (reasoningReply []) = Some []"
    by (simp add: choicesReasoning_def reasoningReply_def)
  have c: "reasoningStage blankReplyEnv st1 ?task None = Inr (js ''because'')" for st1
    by (simp add: reasoningStage_def getDeepseekReasoning_def blankReplyEnv_def demoEnv_def
        reasoningReply_def choicesReasoning_def js_def)
  have d: "createClaude blankReplyEnv ms = Inr (contentReply (Some []))" for ms
    by (simp add: blankReplyEnv_def)
  have e: "choices (contentReply (Some [])) =
             Some [\<lparr>choice_message = Some \<lparr>message_reasoning = None, message_content = Some []\<rparr>\<rparr>]"
    by (simp add: contentReply_def)
  show ?thesis
    using empty_results_asymmetry [OF t, of None silentEnv None]
      empty_results_asymmetry [OF t, of None blankReplyEnv None] t s a b c d e
    by (simp add: Let_def)
qed

text \<open>
  C4. The claim: after every write of a task record its timestamp is the time of that
  write. \<open>updateTask\<close> and \<open>setTaskStatus\<close> of the registry do so (see
  \<open>updateTask_refreshes_timestamp\<close> below), and so do the writes of \<open>'complete'\<close> and
  \<open>'error'\<close> in \<open>processTask\<close>. The writes of \<open>'reasoning'\<close> and \<open>'responding'\<close> spread
  the record read at the start and set no timestamp: for a task registered at 1000, in a
  run whose clock reads 5000 and later, the record carries 1000 until the run completes.
\<close>

theorem processTask_keeps_creation_timestamp:
  "timestampTrace demoId (snd (processTask demoEnv (pendingState (js ''hi'')) demoId None None))
     = [Some 1000, Some 1000, Some 1000, Some 5001] \<and>
   statusTrace demoId (snd (processTask demoEnv (pendingState (js ''hi'')) demoId None None))
     = [Some Pending, Some Reasoning, Some Responding, Some Complete]"
  by (simp add: run_defs demo_defs call_defs statusTrace_def timestampTrace_def Let_def js_def)

section \<open>Creating a task\<close>

lemma trim_Nil_iff: "trim p = [] \<longleftrightarrow> list_all isWhiteSpace p"
proof
  assume "trim p = []"
  then have all: "\<forall>x\<in>set (dropWhile isWhiteSpace p). isWhiteSpace x"
    by (simp add: trim_def dropWhile_eq_Nil_conv)
  have "dropWhile isWhiteSpace p = []"
  proof (rule ccontr)
    assume ne: "dropWhile isWhiteSpace p \<noteq> []"
    then have "\<not> isWhiteSpace (hd (dropWhile isWhiteSpace p))" by (rule hd_dropWhile)
    moreover have "hd (dropWhile isWhiteSpace p) \<in> set (dropWhile isWhiteSpace p)"
      using ne by simp
    ultimately show False using all by blast
  qed
  then show "list_all isWhiteSpace p"
    by (simp add: dropWhile_eq_Nil_conv list_all_iff)
next
  assume "list_all isWhiteSpace p"
  then have d: "dropWhile isWhiteSpace p = []"
    by (simp add: dropWhile_eq_Nil_conv list_all_iff)
  show "trim p = []" unfolding trim_def d by simp
qed

lemma createTask_blank:
  "list_all isWhiteSpace p \<Longrightarrow>
   createTask tasks p sr uuid now = Inl (TaskError (js ''Prompt cannot be empty''))"
  by (simp add: createTask_def trim_Nil_iff)

lemma createTask_two_spaces:
  "createTask tasks (js ''  '') sr uuid now = Inl (TaskError (js ''Prompt cannot be empty''))"
  by (rule createTask_blank) (simp add: js_def isWhiteSpace_def)

text \<open>
  C5. The claim: a blank prompt is refused and no task is registered. \<open>createTask\<close> of
  the registry refuses it (\<open>createTask_blank\<close>). The handlers of the two servers register
  the task themselves and check only that the prompt is a string: the empty prompt given
  to \<open>generate_response\<close> of index.ts, and the prompt of two spaces given to the handler of
  the declarative-tool server, are registered and run to \<open>'complete'\<close>.
\<close>

theorem generate_response_accepts_blank_prompt:
  "generate_response demoEnv initial_state (JsObject [(''prompt'', JsString [])]) demoId 1000
     = Inr (demoId, snd (processTask demoEnv (pendingState []) demoId None None)) \<and>
   statusTrace demoId (snd (processTask demoEnv (pendingState []) demoId None None))
     = [Some Pending, Some Reasoning, Some Responding, Some Complete] \<and>
   handleGenerateResponse demoEnv initial_state
       \<lparr>arg_prompt = js ''  '', arg_showReasoning = None, arg_clearContext = None,
        arg_includeHistory = None\<rparr> demoId 1000
     = (demoId, snd (processTask demoEnv (pendingState (js ''  '')) demoId None None)) \<and>
   statusTrace demoId (snd (processTask demoEnv (pendingState (js ''  '')) demoId None None))
     = [Some Pending, Some Reasoning, Some Responding, Some Complete] \<and>
   createTask Map.empty [] None demoId 1000 = Inl (TaskError (js ''Prompt cannot be empty''))"
  by (simp add: generate_response_def handleGenerateResponse_eq
      isValidGenerateResponseArgs_def startTask_def run_defs demo_defs call_defs
      statusTrace_def Let_def js_def createTask_def trim_def)

section \<open>Status checks\<close>

lemma processTask_keeps_flag:
  assumes "activeTasks st taskId = Some task"
  shows "\<forall>s\<in>set (snd (processTask env st taskId cc ih)).
           \<exists>t. activeTasks s taskId = Some t \<and> showReasoning t = showReasoning task
                \<and> prompt t = prompt task"
  using assms
  by (cases rule: processTask_cases [OF assms, of env cc ih]) (simp_all add: write_defs)

lemma startTask_keeps_flag:
  "\<forall>s\<in>set (snd (startTask env st p sr cc ih taskId now)).
     \<exists>t. activeTasks s taskId = Some t \<and> showReasoning t = sr \<and> prompt t = p"
proof -
  define task where "task = \<lparr>status = Pending, prompt = p, showReasoning = sr, reasoning = None,
                      response = None, error = None, timestamp = now\<rparr>"
  define st0 where "st0 = st\<lparr>activeTasks := (activeTasks st)(taskId \<mapsto> task)\<rparr>"
  have reg: "activeTasks st0 taskId = Some task" by (simp add: st0_def)
  obtain out trace where pt: "processTask env st0 taskId cc ih = (out, trace)"
    by (cases "processTask env st0 taskId cc ih") blast
  have keep: "\<forall>s\<in>set trace.
           \<exists>t. activeTasks s taskId = Some t \<and> showReasoning t = sr \<and> prompt t = p"
    using processTask_keeps_flag [OF reg, of env cc ih] pt by (simp add: task_def)
  have ne: "trace \<noteq> []"
    using pt by (cases rule: processTask_cases [OF reg, of env cc ih]) auto
  have lst: "\<exists>t. activeTasks (last trace) taskId = Some t \<and> showReasoning t = sr \<and> prompt t = p"
    using keep ne last_in_set by blast
  have rej: "\<exists>t. activeTasks st' taskId = Some t \<and> showReasoning t = sr \<and> prompt t = p"
    if "processTaskRejected (last trace) taskId e = Inr st'" for e st'
    using that lst by (auto simp: processTaskRejected_def split: sum.splits)
  have tr: "snd (startTask env st p sr cc ih taskId now) =
           (case out of
              None \<Rightarrow> trace
            | Some e \<Rightarrow>
                (case processTaskRejected (last trace) taskId e of
                   Inl thrown \<Rightarrow> trace
                 | Inr st' \<Rightarrow> trace @ [st']))"
    using startTask_trace [of env st taskId p sr now cc ih out trace] pt
    by (simp add: st0_def task_def)
  show ?thesis
  proof (cases out)
    case None
    then show ?thesis using keep tr by simp
  next
    case (Some e)
    show ?thesis
    proof (cases "processTaskRejected (last trace) taskId e")
      case (Inl thrown)
      then show ?thesis using keep tr Some by simp
    next
      case (Inr st')
      then show ?thesis using keep tr Some rej [OF Inr] by auto
    qed
  qed
qed

lemma pollInterval_range:
  "pollInterval view taskId i g n k = Inr j \<Longrightarrow> k \<le> j \<and> j \<le> k + n"
proof (induction n arbitrary: k)
  case 0
  then show ?case by simp
next
  case (Suc n)
  then show ?case
    by (fastforce split: option.splits if_splits)
qed

lemma check_response_status_Inr:
  "check_response_status st args = Inr res \<Longrightarrow>
   \<exists>task. activeTasks st (stringOf (get_prop args ''taskId'')) = Some task \<and> res = statusResult task"
  unfolding check_response_status_def Let_def
  by (cases "isValidCheckResponseStatusArgs args";
      cases "activeTasks st (stringOf (get_prop args ''taskId''))") simp_all

lemma handleCheckResponseStatus_Inr:
  assumes "handleCheckResponseStatus view ticks taskId = Inr (res, k)"
  shows "\<exists>task. activeTasks (view k) taskId = Some task \<and> res = statusResult task \<and> k \<le> Suc ticks"
proof (cases "activeTasks (view 0) taskId")
  case None
  then show ?thesis using assms by (simp add: handleCheckResponseStatus_def)
next
  case (Some task)
  show ?thesis
  proof (cases "status task \<in> set [Complete, Error]")
    case True
    then show ?thesis using assms Some by (simp add: handleCheckResponseStatus_def)
  next
    case False
    let ?p = "pollInterval (\<lambda>k. activeTasks (view k)) taskId (status task)
                (JsError (js ''Task '' @ taskId @ js '' no longer exists'')) ticks 1"
    show ?thesis
    proof (cases ?p)
      case (Inl e)
      then show ?thesis using assms Some False by (simp add: handleCheckResponseStatus_def Let_def)
    next
      case (Inr j)
      then have j: "j \<le> Suc ticks" using pollInterval_range [OF Inr] by simp
      show ?thesis
      proof (cases "activeTasks (view j) taskId")
        case None
        then show ?thesis using assms Some False Inr
          by (simp add: handleCheckResponseStatus_def Let_def)
      next
        case (Some finalTask)
        then show ?thesis using assms \<open>activeTasks (view 0) taskId = Some task\<close> False Inr j
          by (auto simp: handleCheckResponseStatus_def Let_def)
      qed
    qed
  qed
qed

text \<open>
  C6. A status check of either server answers with the fields of the record it reads: the
  reasoning only when the record has \<open>showReasoning\<close> true, the response only when its
  status is \<open>'complete'\<close>; otherwise the field is absent. The flag of the record is the one
  given when the task was created: every state of the run that the registration starts
  has the task with that flag.
\<close>

text \<open>
  C6. A status check of either server answers with the fields of the record it reads: the
  reasoning only when the record has \<open>showReasoning\<close> true, the response only when its
  status is \<open>'complete'\<close>; otherwise the field is absent. The flag of the record is the one
  given when the task was created: every state of the run that the registration starts
  has the task with that flag.
\<close>

theorem status_fields_gated:
  "(check_response_status st args = Inr res \<longrightarrow>
      (\<exists>task. activeTasks st (stringOf (get_prop args ''taskId'')) = Some task \<and>
         result_status res = status task \<and> result_error res = error task \<and>
         result_reasoning res = (if showReasoning task = Some True then reasoning task else None) \<and>
         result_response res = (if status task = Complete then response task else None) \<and>
         (result_reasoning res \<noteq> None \<longrightarrow> showReasoning task = Some True) \<and>
         (result_response res \<noteq> None \<longrightarrow> result_status res = Complete))) \<and>
   (handleCheckResponseStatus view ticks taskId = Inr (res', k) \<longrightarrow>
      (\<exists>task. activeTasks (view k) taskId = Some task \<and> k \<le> Suc ticks \<and>
         result_status res' = status task \<and> result_error res' = error task \<and>
         result_reasoning res' = (if showReasoning task = Some True then reasoning task else None) \<and>
         result_response res' = (if status task = Complete then response task else None) \<and>
         (result_reasoning res' \<noteq> None \<longrightarrow> showReasoning task = Some True) \<and>
         (result_response res' \<noteq> None \<longrightarrow> result_status res' = Complete))) \<and>
   (\<forall>s\<in>set (snd (startTask env st0 p sr cc ih newId now)).
      \<exists>t. activeTasks s newId = Some t \<and> showReasoning t = sr)"
proof (intro conjI impI)
  assume "check_response_status st args = Inr res"
  then obtain task where
    "activeTasks st (stringOf (get_prop args ''taskId'')) = Some task" "res = statusResult task"
    using check_response_status_Inr by blast
  then show "\<exists>task. activeTasks st (stringOf (get_prop args ''taskId'')) = Some task \<and>
         result_status res = status task \<and> result_error res = error task \<and>
         result_reasoning res = (if showReasoning task = Some True then reasoning task else None) \<and>
         result_response res = (if status task = Complete then response task else None) \<and>
         (result_reasoning res \<noteq> None \<longrightarrow> showReasoning task = Some True) \<and>
         (result_response res \<noteq> None \<longrightarrow> result_status res = Complete)"
    by (intro exI [of _ task]) (simp add: statusResult_def)
next
  assume "handleCheckResponseStatus view ticks taskId = Inr (res', k)"
  then obtain task where
    "activeTasks (view k) taskId = Some task" "res' = statusResult task" "k \<le> Suc ticks"
    using handleCheckResponseStatus_Inr by blast
  then show "\<exists>task. activeTasks (view k) taskId = Some task \<and> k \<le> Suc ticks \<and>
         result_status res' = status task \<and> result_error res' = error task \<and>
         result_reasoning res' = (if showReasoning task = Some True then reasoning task else None) \<and>
         result_response res' = (if status task = Complete then response task else None) \<and>
         (result_reasoning res' \<noteq> None \<longrightarrow> showReasoning task = Some True) \<and>
         (result_response res' \<noteq> None \<longrightarrow> result_status res' = Complete)"
    by (intro exI [of _ task]) (simp add: statusResult_def)
next
  show "\<forall>s\<in>set (snd (startTask env st0 p sr cc ih newId now)).
      \<exists>t. activeTasks s newId = Some t \<and> showReasoning t = sr"
    using startTask_keeps_flag [of env st0 p sr cc ih newId now] by blast
qed

theorem status_fields_gated_witness:
  "check_response_status hiddenState (JsObject [(''taskId'', JsString demoId)])
     = Inr \<lparr>result_status = Responding, result_reasoning = None, result_response = None,
            result_error = None\<rparr> \<and>
   handleCheckResponseStatus (\<lambda>k. hiddenState) 3 demoId
     = Inr (\<lparr>result_status = Responding, result_reasoning = None, result_response = None,
             result_error = None\<rparr>, 4)"
proof -
  have a: "check_response_status hiddenState (JsObject [(''taskId'', JsString demoId)])
     = Inr (statusResult hiddenTask)"
    by (simp add: check_response_status_def isValidCheckResponseStatusArgs_def hiddenState_def)
  have p: "pollInterval (\<lambda>k. activeTasks hiddenState) demoId Responding g 3 1 = Inr 4" for g
    by (simp add: numeral_3_eq_3 hiddenState_def hiddenTask_def isTaskComplete_def)
  have b: "handleCheckResponseStatus (\<lambda>k. hiddenState) 3 demoId = Inr (statusResult hiddenTask, 4)"
    using p by (simp add: handleCheckResponseStatus_def Let_def hiddenState_def hiddenTask_def)
  have s: "statusResult hiddenTask = \<lparr>result_status = Responding, result_reasoning = None,
             result_response = None, result_error = None\<rparr>"
    by (simp add: statusResult_def hiddenTask_def)
  show ?thesis
    using status_fields_gated [of hiddenState "JsObject [(''taskId'', JsString demoId)]"
        "statusResult hiddenTask" "\<lambda>k. hiddenState" 3 demoId "statusResult hiddenTask" 4]
      a b s
    by simp
qed




section \<open>The registry has no state machine\<close>

lemma updateTask_refreshes_timestamp:
  "updateTask tasks taskId updates now = Inr tasks' \<Longrightarrow>
   map_option timestamp (tasks' taskId) = Some now"
  by (auto simp: updateTask_def split: sum.splits option.splits)

lemma setTaskStatus_refreshes_timestamp:
  "setTaskStatus tasks taskId s info now = Inr tasks' \<Longrightarrow>
   map_option timestamp (tasks' taskId) = Some now"
  by (auto simp: setTaskStatus_def split: sum.splits option.splits)

text \<open>
  The statuses a task goes through, from its registration by a handler to the end of the
  run: one of five sequences. After \<open>'complete'\<close> nothing is written; after \<open>'error'\<close>
  the callback of the handler's \<open>.catch\<close> writes \<open>'error'\<close> once more, unless the value
  thrown was \<open>null\<close> or \<open>undefined\<close> and the callback threw before it wrote.
\<close>

lemma startTask_status_sequences:
  "statusTrace taskId (snd (startTask env st p sr cc ih taskId now)) \<in> set
     [[Some Pending, Some Reasoning, Some Error],
      [Some Pending, Some Reasoning, Some Error, Some Error],
      [Some Pending, Some Reasoning, Some Responding, Some Error],
      [Some Pending, Some Reasoning, Some Responding, Some Error, Some Error],
      [Some Pending, Some Reasoning, Some Responding, Some Complete]]"
proof -
  define task where "task = \<lparr>status = Pending, prompt = p, showReasoning = sr, reasoning = None,
                      response = None, error = None, timestamp = now\<rparr>"
  define st0 where "st0 = st\<lparr>activeTasks := (activeTasks st)(taskId \<mapsto> task)\<rparr>"
  define st1 where "st1 = beginTask st0 taskId task cc"
  have reg: "activeTasks st0 taskId = Some task" by (simp add: st0_def)
  note state_defs = catchBlock_def respondingTask_def completeTask_def st1_def beginTask_def
    st0_def task_def
  show ?thesis
  proof (cases rule: processTask_cases [OF reg, of env cc ih])
    case (1 e)
    then have r: "processTask env st0 taskId cc ih =
                    (Some e, [st0, st1] @ [catchBlock st1 taskId task e (dateNow env 0)])"
      by (simp add: st1_def)
    have tr: "snd (startTask env st p sr cc ih taskId now) =
           [st0, st1] @ [catchBlock st1 taskId task e (dateNow env 0)] @
           (if e = ThrownNull \<or> e = ThrownUndefined then []
            else [(catchBlock st1 taskId task e (dateNow env 0))\<lparr>activeTasks :=
                    (activeTasks (catchBlock st1 taskId task e (dateNow env 0)))(taskId \<mapsto>
                       (task\<lparr>status := Error,
                              error := (if instanceofError e then message e
                                        else Some (js ''Unknown error'')),
                              timestamp := dateNow env 0\<rparr>)\<lparr>status := Error,
                                                             error := message e\<rparr>)\<rparr>])"
      by (rule startTask_failed) (use r in \<open>simp only: st0_def task_def\<close>)
    show ?thesis
      unfolding tr by (simp add: statusTrace_def state_defs)
  next
    case (2 r e)
    let ?st2 = "respondingTask st1 taskId task r"
    from 2 have r: "processTask env st0 taskId cc ih =
                    (Some e, [st0, st1, ?st2] @ [catchBlock ?st2 taskId task e (dateNow env 0)])"
      by (simp add: st1_def)
    have tr: "snd (startTask env st p sr cc ih taskId now) =
           [st0, st1, ?st2] @ [catchBlock ?st2 taskId task e (dateNow env 0)] @
           (if e = ThrownNull \<or> e = ThrownUndefined then []
            else [(catchBlock ?st2 taskId task e (dateNow env 0))\<lparr>activeTasks :=
                    (activeTasks (catchBlock ?st2 taskId task e (dateNow env 0)))(taskId \<mapsto>
                       (task\<lparr>status := Error,
                              error := (if instanceofError e then message e
                                        else Some (js ''Unknown error'')),
                              timestamp := dateNow env 0\<rparr>)\<lparr>status := Error,
                                                             error := message e\<rparr>)\<rparr>])"
      by (rule startTask_failed) (use r in \<open>simp only: st0_def task_def\<close>)
    show ?thesis
      unfolding tr by (simp add: statusTrace_def state_defs)
  next
    case (3 r resp)
    then have r: "processTask env st0 taskId cc ih =
                    (None, [st0, st1, respondingTask st1 taskId task r,
                       completeTask env (respondingTask st1 taskId task r) taskId task r resp])"
      by (simp add: st1_def)
    have tr: "snd (startTask env st p sr cc ih taskId now) =
                (case None of None \<Rightarrow> [st0, st1, respondingTask st1 taskId task r,
                       completeTask env (respondingTask st1 taskId task r) taskId task r resp]
                 | Some e \<Rightarrow>
                     (case processTaskRejected (last [st0, st1, respondingTask st1 taskId task r,
                       completeTask env (respondingTask st1 taskId task r) taskId task r resp])
                         taskId e of
                        Inl thrown \<Rightarrow> [st0, st1, respondingTask st1 taskId task r,
                       completeTask env (respondingTask st1 taskId task r) taskId task r resp]
                      | Inr st' \<Rightarrow> [st0, st1, respondingTask st1 taskId task r,
                       completeTask env (respondingTask st1 taskId task r) taskId task r resp]
                         @ [st']))"
      by (rule startTask_trace) (use r in \<open>simp only: st0_def task_def\<close>)
    show ?thesis
      unfolding tr by (simp add: statusTrace_def state_defs)
  qed
qed

text \<open>
  C10. For a task that exists under a non-empty id, \<open>setTaskStatus\<close> and \<open>updateTask\<close>
  succeed for every status and every update, whatever the status of the task was: nothing
  in them reads the old status. A complete task can be set back to \<open>'pending'\<close>. That a
  task stays in a terminal status comes from the runs, which write no other status after
  it (the five sequences above).
\<close>

theorem registry_has_no_guard:
  assumes "tasks taskId = Some task" and "taskId \<noteq> []"
  shows "setTaskStatus tasks taskId s info now
           = Inr (tasks(taskId \<mapsto> (spread task info)\<lparr>status := s, timestamp := now\<rparr>)) \<and>
         updateTask tasks taskId updates now
           = Inr (tasks(taskId \<mapsto> (spread task updates)\<lparr>timestamp := now\<rparr>)) \<and>
         (\<exists>tasks'. updateTask tasks taskId (noUpdates\<lparr>upd_status := Some s\<rparr>) now = Inr tasks' \<and>
            map_option status (tasks' taskId) = Some s) \<and>
         (\<exists>tasks'. setTaskStatus tasks taskId s noUpdates now = Inr tasks' \<and>
            map_option status (tasks' taskId) = Some s) \<and>
         statusTrace newId (snd (startTask env st p sr cc ih newId now')) \<in> set
           [[Some Pending, Some Reasoning, Some Error],
            [Some Pending, Some Reasoning, Some Error, Some Error],
            [Some Pending, Some Reasoning, Some Responding, Some Error],
            [Some Pending, Some Reasoning, Some Responding, Some Error, Some Error],
            [Some Pending, Some Reasoning, Some Responding, Some Complete]]"
proof -
  have registry:
    "setTaskStatus tasks taskId s info now
       = Inr (tasks(taskId \<mapsto> (spread task info)\<lparr>status := s, timestamp := now\<rparr>)) \<and>
     updateTask tasks taskId updates now
       = Inr (tasks(taskId \<mapsto> (spread task updates)\<lparr>timestamp := now\<rparr>)) \<and>
     (\<exists>tasks'. updateTask tasks taskId (noUpdates\<lparr>upd_status := Some s\<rparr>) now = Inr tasks' \<and>
        map_option status (tasks' taskId) = Some s) \<and>
     (\<exists>tasks'. setTaskStatus tasks taskId s noUpdates now = Inr tasks' \<and>
        map_option status (tasks' taskId) = Some s)"
    using assms
    by (simp add: setTaskStatus_def updateTask_def validateTaskId_def spread_def noUpdates_def)
  show ?thesis
    using registry startTask_status_sequences [of newId env st p sr cc ih now'] by blast
qed

theorem registry_has_no_guard_witness:
  "[demoId \<mapsto> doneTask] demoId = Some doneTask \<and> demoId \<noteq> [] \<and>
   isTaskComplete (status doneTask) \<and>
   setTaskStatus [demoId \<mapsto> doneTask] demoId Pending noUpdates 9000
     = Inr [demoId \<mapsto> doneTask\<lparr>status := Pending, timestamp := 9000\<rparr>] \<and>
   statusTrace demoId
     (snd (startTask (throwingEnv ThrownUndefined) initial_state (js ''hi'') None None None
            demoId 1000))
     = [Some Pending, Some Reasoning, Some Error]"
proof -
  have a: "[demoId \<mapsto> doneTask] demoId = Some doneTask" by simp
  have b: "demoId \<noteq> []" by (simp add: demoId_def js_def)
  have c: "isTaskComplete (status doneTask)" by (simp add: isTaskComplete_def doneTask_def)
  have d: "spread doneTask noUpdates = doneTask" by (simp add: spread_def noUpdates_def)
  have e: "statusTrace demoId
     (snd (startTask (throwingEnv ThrownUndefined) initial_state (js ''hi'') None None None
            demoId 1000))
     = [Some Pending, Some Reasoning, Some Error]"
    by (simp add: startTask_def processTaskRejected_def run_defs demo_defs call_defs
        statusTrace_def Let_def)
  show ?thesis
    using registry_has_no_guard [where tasks = "[demoId \<mapsto> doneTask]" and taskId = demoId
        and task = doneTask and s = Pending and info = noUpdates and now = 9000] a b c d e
    by simp
qed

section \<open>The two servers side by side\<close>




lemma pollInterval_from:
  "pollInterval view taskId i g n k = Inr j \<Longrightarrow> k \<le> j"
  using pollInterval_range by blast





end
